theory Spec2Isabelle
  imports Complex_Main
begin

text \<open>
  A model of the rendezvous engine (\<open>DTK_Rendezvous_def.hpp\<close>) and of the shared domain
  map (\<open>DTK_SharedDomainMap_def.hpp\<close>) of DataTransferKit.  Functions keep the names of the
  source; \<open>SharedDomainMap::setup\<close> and \<open>SharedDomainMap::apply\<close> are \<open>sdm_setup\<close> and
  \<open>sdm_apply\<close>.  Line numbers refer to the two files.  Doubles are modelled as reals.  A
  function that can throw or fault returns a sum, the error on the left.  What runs on
  every rank of the communicator and communicates is a function of the list of the values
  of all ranks.
\<close>

section \<open>Ordinal types and errors\<close>

text \<open>
  \<open>GlobalOrdinal\<close> is a template parameter of the mesh traits
  (\<open>MT::global_ordinal_type\<close>).  The instantiations are the built-in integer types;
  values are modelled as mathematical integers together with the range of the type, and
  every conversion into the type is written out.
\<close>

datatype ordinal_type = Int32 | Int64 | UInt32 | UInt64

fun ordinal_bits :: "ordinal_type \<Rightarrow> nat" where
  "ordinal_bits Int32 = 32"
| "ordinal_bits Int64 = 64"
| "ordinal_bits UInt32 = 32"
| "ordinal_bits UInt64 = 64"

fun ordinal_signed :: "ordinal_type \<Rightarrow> bool" where
  "ordinal_signed Int32 = True"
| "ordinal_signed Int64 = True"
| "ordinal_signed UInt32 = False"
| "ordinal_signed UInt64 = False"

text \<open>\<open>std::numeric_limits<GlobalOrdinal>::max()\<close>.\<close>

definition ordinal_max :: "ordinal_type \<Rightarrow> int" where
  "ordinal_max T =
     (if ordinal_signed T then 2 ^ (ordinal_bits T - 1) - 1 else 2 ^ ordinal_bits T - 1)"

text \<open>
  Conversion of an integer value to \<open>GlobalOrdinal\<close>: reduction modulo \<open>2 ^ bits\<close>, read
  as two's complement for the signed types.  This is what the comparison of a
  \<open>GlobalOrdinal\<close> with the literal \<open>-1\<close> and the arithmetic \<open>comm_rank*global_size + n\<close>
  go through.
\<close>

definition to_ordinal :: "ordinal_type \<Rightarrow> int \<Rightarrow> int" where
  "to_ordinal T x =
     (if ordinal_signed T
      then (x + 2 ^ (ordinal_bits T - 1)) mod 2 ^ ordinal_bits T - 2 ^ (ordinal_bits T - 1)
      else x mod 2 ^ ordinal_bits T)"

text \<open>
  The checks of \<open>DTK_Assertion.hpp\<close> and \<open>DTK_DBC.hpp\<close> throw; reads through an end
  iterator or outside an array and integer division by zero are faults of the run.
\<close>

datatype error =
    PreconditionFailure
  | InvariantFailure
  | PostconditionFailure
  | AssertionFailure
  | KeyNotFound
  | OutOfRange
  | DivisionByZero

section \<open>Fields\<close>

text \<open>
  A field as the field traits present it: its dimension (\<open>dim\<close>) and its blocked data
  (\<open>begin\<close> .. \<open>end\<close>), component \<open>d\<close> of point \<open>n\<close> at \<open>d * num_points + n\<close>.  A
  coordinate field holds doubles.
\<close>

record 'v field =
  field_dim :: nat
  field_data :: "'v list"

type_synonym coord_field = "real field"

section \<open>SharedDomainMap::computePointOrdinals\<close>

text \<open>Lines 608 to 616: the local number of points; a null manager holds none.\<close>

definition local_size_of :: "coord_field option \<Rightarrow> error + nat" where
  "local_size_of target_coord_manager =
     (case target_coord_manager of
        None \<Rightarrow> Inr 0
      | Some f \<Rightarrow>
          if field_dim f = 0 then Inl DivisionByZero
          else Inr (length (field_data f) div field_dim f))"


text \<open>\<open>Teuchos::reduceAll\<close> with \<open>REDUCE_MAX\<close> over the local sizes of all ranks.\<close>

definition reduceAll_max :: "nat list \<Rightarrow> nat" where
  "reduceAll_max local_sizes = foldr max local_sizes 0"

text \<open>Lines 626 to 637 on one rank: the ordinals and the global-to-local table.\<close>

definition point_ordinals :: "ordinal_type \<Rightarrow> nat \<Rightarrow> nat \<Rightarrow> nat \<Rightarrow> int list" where
  "point_ordinals T comm_rank global_size local_size =
     map (\<lambda>n. to_ordinal T (int comm_rank * int global_size + int n)) [0..<local_size]"

fun build_g2l :: "(int \<rightharpoonup> nat) \<Rightarrow> nat \<Rightarrow> int list \<Rightarrow> (int \<rightharpoonup> nat)" where
  "build_g2l g2l n [] = g2l"
| "build_g2l g2l n (ordinal # rest) = build_g2l (g2l(ordinal \<mapsto> n)) (Suc n) rest"

record ordinals_result =
  target_ordinals :: "int list"
  target_g2l :: "int \<rightharpoonup> nat"

fun collect_sizes :: "coord_field option list \<Rightarrow> error + nat list" where
  "collect_sizes [] = Inr []"
| "collect_sizes (m # ms) =
     (case local_size_of m of
        Inl e \<Rightarrow> Inl e
      | Inr k \<Rightarrow> (case collect_sizes ms of Inl e \<Rightarrow> Inl e | Inr ks \<Rightarrow> Inr (k # ks)))"

text \<open>
  The collective call: entry \<open>r\<close> of the argument is the target manager of rank \<open>r\<close> of
  the parent communicator, entry \<open>r\<close> of the result what rank \<open>r\<close> ends with.
\<close>

definition computePointOrdinals ::
  "ordinal_type \<Rightarrow> bool \<Rightarrow> coord_field option list \<Rightarrow> error + ordinals_result list" where
  "computePointOrdinals T d_store_missed_points managers =
     (case collect_sizes managers of
        Inl e \<Rightarrow> Inl e
      | Inr local_sizes \<Rightarrow>
          let global_size = reduceAll_max local_sizes in
          Inr (map (\<lambda>comm_rank.
                 let ords = point_ordinals T comm_rank global_size (local_sizes ! comm_rank)
                 in \<lparr> target_ordinals = ords,
                      target_g2l = (if d_store_missed_points
                                    then build_g2l Map.empty 0 ords else Map.empty) \<rparr>)
               [0..<length local_sizes]))"


section \<open>Bounding boxes\<close>

text \<open>Six doubles, modelled as reals: the arithmetic of the model is exact.\<close>

record bounding_box =
  x_min :: real
  y_min :: real
  z_min :: real
  x_max :: real
  y_max :: real
  z_max :: real

text \<open>
  Modelled from the spec: \<open>DTK_BoundingBox\<close> is not among the sources.  \<open>getBounds\<close> returns
  the six bounds \<open>(xmin, ymin, zmin, xmax, ymax, zmax)\<close>, the constructor from a tuple
  stores them, \<open>volume\<close> is the volume in a given dimension, \<open>pointInBox\<close> is containment
  with closed intervals on the axes the point has.
\<close>

definition getBounds :: "bounding_box \<Rightarrow> real list" where
  "getBounds b = [x_min b, y_min b, z_min b, x_max b, y_max b, z_max b]"

definition BoundingBox :: "real list \<Rightarrow> bounding_box" where
  "BoundingBox bounds =
     \<lparr> x_min = bounds ! 0, y_min = bounds ! 1, z_min = bounds ! 2,
       x_max = bounds ! 3, y_max = bounds ! 4, z_max = bounds ! 5 \<rparr>"

definition volume :: "bounding_box \<Rightarrow> nat \<Rightarrow> real" where
  "volume b dimension =
     (if dimension = 1 then x_max b - x_min b
      else if dimension = 2 then (x_max b - x_min b) * (y_max b - y_min b)
      else if dimension = 3 then (x_max b - x_min b) * (y_max b - y_min b) * (z_max b - z_min b)
      else 0)"

definition pointInBox :: "bounding_box \<Rightarrow> real list \<Rightarrow> bool" where
  "pointInBox b point =
     list_all (\<lambda>d. getBounds b ! d \<le> point ! d \<and> point ! d \<le> getBounds b ! (d + 3))
       [0..<min (length point) 3]"

section \<open>Meshes\<close>

text \<open>
  A mesh block as \<open>MeshTools\<close> and the mesh traits present it: vertex ids, blocked
  coordinates (\<open>coords[d*num_vertices + n]\<close>), element ids, blocked connectivity
  (\<open>connectivity[i*num_elements + e]\<close>) and the number of vertices of an element.
\<close>

record mesh_block =
  verticesView :: "int list"
  coordsView :: "real list"
  elementsView :: "int list"
  connectivityView :: "int list"
  verticesPerElement :: nat

definition numVertices :: "mesh_block \<Rightarrow> nat" where
  "numVertices block = length (verticesView block)"

definition numElements :: "mesh_block \<Rightarrow> nat" where
  "numElements block = length (elementsView block)"

text \<open>
  The mesh manager: its blocks, its dimension, the number of elements over all ranks and
  the active flags of the vertices and elements of each block (\<open>Teuchos::Array<short int>\<close>
  holding 0 or 1, here booleans).
\<close>

record mesh_manager =
  blocks :: "mesh_block list"
  mesh_dim :: nat
  globalNumElements :: int
  active_vertices :: "nat \<Rightarrow> bool list"
  active_elements :: "nat \<Rightarrow> bool list"

definition setActiveVertices :: "bool list \<Rightarrow> nat \<Rightarrow> mesh_manager \<Rightarrow> mesh_manager" where
  "setActiveVertices flags block_id m = m\<lparr>active_vertices := (active_vertices m)(block_id := flags)\<rparr>"

definition setActiveElements :: "bool list \<Rightarrow> nat \<Rightarrow> mesh_manager \<Rightarrow> mesh_manager" where
  "setActiveElements flags block_id m = m\<lparr>active_elements := (active_elements m)(block_id := flags)\<rparr>"

text \<open>
  \<open>getLocalVertexId\<close> of the manager's indexing: the position of a vertex id in its block.
\<close>

fun index_of :: "int \<Rightarrow> int list \<Rightarrow> nat option" where
  "index_of g [] = None"
| "index_of g (v # vs) = (if v = g then Some 0 else map_option Suc (index_of g vs))"

definition getLocalVertexId :: "mesh_manager \<Rightarrow> nat \<Rightarrow> int \<Rightarrow> error + nat" where
  "getLocalVertexId m b vertex_gid =
     (case index_of vertex_gid (verticesView (blocks m ! b)) of
        None \<Rightarrow> Inl KeyNotFound
      | Some lid \<Rightarrow> Inr lid)"

section \<open>The rendezvous engine\<close>

text \<open>
  The members of \<open>Rendezvous\<close>.  The partitioner and the element tree are not among the
  sources; each is held as the one query the engine makes of it:
  \<open>getPointDestinationProc\<close> and \<open>findPoint\<close>, the latter returning the element found, if
  any.
\<close>

record rendezvous =
  d_dimension :: nat
  d_global_box :: bounding_box
  d_partitioner :: "(real list \<Rightarrow> int) option"
  d_rendezvous_mesh_manager :: "mesh_manager option"
  d_element_tree :: "(real list \<Rightarrow> real \<Rightarrow> int option) option"
  d_element_src_procs_map :: "int \<rightharpoonup> int"

text \<open>The constructor, lines 84 to 90.\<close>

definition Rendezvous :: "nat \<Rightarrow> bounding_box \<Rightarrow> rendezvous" where
  "Rendezvous dimension global_box =
     \<lparr> d_dimension = dimension, d_global_box = global_box, d_partitioner = None,
       d_rendezvous_mesh_manager = None, d_element_tree = None,
       d_element_src_procs_map = Map.empty \<rparr>"

text \<open>Modelled from the spec: \<open>getBox\<close> is declared in the header, which is not among the sources.\<close>

definition getBox :: "rendezvous \<Rightarrow> bounding_box" where
  "getBox r = d_global_box r"

text \<open>Sequencing of steps that can fail.\<close>

definition bind_err :: "error + 'a \<Rightarrow> ('a \<Rightarrow> error + 'b) \<Rightarrow> error + 'b" where
  "bind_err m f = (case m of Inl e \<Rightarrow> Inl e | Inr x \<Rightarrow> f x)"

fun mapM :: "('a \<Rightarrow> error + 'b) \<Rightarrow> 'a list \<Rightarrow> error + 'b list" where
  "mapM f [] = Inr []"
| "mapM f (x # xs) = bind_err (f x) (\<lambda>y. bind_err (mapM f xs) (\<lambda>ys. Inr (y # ys)))"

text \<open>Reading an array at an index: outside the array the run is at fault.\<close>

definition read_at :: "'a list \<Rightarrow> nat \<Rightarrow> error + 'a" where
  "read_at xs i = (if i < length xs then Inr (xs ! i) else Inl OutOfRange)"

text \<open>\<open>m.find(k)->second\<close> on a hash map.\<close>

definition find_second :: "('k \<rightharpoonup> 'v) \<Rightarrow> 'k \<Rightarrow> error + 'v" where
  "find_second m k = (case m k of None \<Rightarrow> Inl KeyNotFound | Some v \<Rightarrow> Inr v)"

text \<open>Point \<open>n\<close> of a blocked array of \<open>num_points\<close> points in \<open>dimension\<close> coordinates.\<close>

definition blocked_point :: "real list \<Rightarrow> nat \<Rightarrow> nat \<Rightarrow> nat \<Rightarrow> error + real list" where
  "blocked_point coords dimension num_points n =
     mapM (\<lambda>d. read_at coords (d * num_points + n)) [0..<dimension]"

subsection \<open>Rendezvous::elementsContainingPoints\<close>

text \<open>
  The body of the loop over the points, lines 236 to 254: the element and the source rank
  written at index \<open>n\<close>.
\<close>

definition elementContainingPoint ::
  "ordinal_type \<Rightarrow> (real list \<Rightarrow> real \<Rightarrow> int option) \<Rightarrow> (int \<rightharpoonup> int) \<Rightarrow> real \<Rightarrow> real list
     \<Rightarrow> error + (int \<times> int)" where
  "elementContainingPoint T findPoint src_procs_map tolerance point =
     (case findPoint point tolerance of
        Some element_ordinal \<Rightarrow>
          bind_err (find_second src_procs_map element_ordinal) (\<lambda>proc. Inr (element_ordinal, proc))
      | None \<Rightarrow> Inr (ordinal_max T, - 1))"

text \<open>
  The arrays \<open>elements\<close> and \<open>element_src_procs\<close> are resized to the number of points and
  every entry is assigned, so the result does not depend on what they held.
\<close>

definition elementsContainingPoints ::
  "ordinal_type \<Rightarrow> rendezvous \<Rightarrow> real list \<Rightarrow> real \<Rightarrow> error + (int list \<times> int list)" where
  "elementsContainingPoints T r coords tolerance =
     (if d_dimension r = 0 then Inl DivisionByZero
      else case d_element_tree r of
        None \<Rightarrow> Inl PreconditionFailure
      | Some findPoint \<Rightarrow>
          let num_points = length coords div d_dimension r in
          bind_err (mapM (\<lambda>n. bind_err (blocked_point coords (d_dimension r) num_points n)
                            (elementContainingPoint T findPoint (d_element_src_procs_map r)
                               tolerance))
                  [0..<num_points])
            (\<lambda>found. Inr (map fst found, map snd found)))"

subsection \<open>Rendezvous::procsContainingPoints\<close>

definition procsContainingPoints :: "rendezvous \<Rightarrow> real list \<Rightarrow> error + int list" where
  "procsContainingPoints r coords =
     (if d_dimension r = 0 then Inl DivisionByZero
      else case d_partitioner r of
        None \<Rightarrow> Inl PreconditionFailure
      | Some getPointDestinationProc \<Rightarrow>
          let num_points = length coords div d_dimension r in
          mapM (\<lambda>n. bind_err (blocked_point coords (d_dimension r) num_points n)
                      (\<lambda>point. Inr (getPointDestinationProc point)))
            [0..<num_points])"

subsection \<open>Rendezvous::elementsInGeometry\<close>

text \<open>
  Modelled from the spec: \<open>TopologyTools::elementInGeometry\<close> is not among the sources.  It
  is given the node coordinates of one element, one point per vertex, and answers whether
  every vertex (\<open>all_vertices_for_inclusion\<close>) or at least one vertex lies in the geometry
  within the tolerance.  \<open>pointInGeometry\<close> is the predicate of the geometry traits.
\<close>

definition elementInGeometry ::
  "('g \<Rightarrow> real \<Rightarrow> real list \<Rightarrow> bool) \<Rightarrow> 'g \<Rightarrow> real list list \<Rightarrow> real \<Rightarrow> bool \<Rightarrow> bool" where
  "elementInGeometry pointInGeometry geometry node_coords tolerance all_vertices_for_inclusion =
     (if all_vertices_for_inclusion
      then list_all (pointInGeometry geometry tolerance) node_coords
      else list_ex (pointInGeometry geometry tolerance) node_coords)"

text \<open>\<open>elements.resize( geometry.size() )\<close>: entries kept, or empty lists appended.\<close>

definition resize :: "nat \<Rightarrow> 'a \<Rightarrow> 'a list \<Rightarrow> 'a list" where
  "resize n fill xs = take n xs @ replicate (n - length xs) fill"

text \<open>Lines 316 to 327: the node coordinates of element \<open>e\<close> of block \<open>b\<close>.\<close>

definition node_coords_of ::
  "mesh_manager \<Rightarrow> nat \<Rightarrow> nat \<Rightarrow> nat \<Rightarrow> error + real list list" where
  "node_coords_of m b block_verts_per_elem e =
     (let block = blocks m ! b;
          block_num_elements = numElements block;
          block_num_vertices = numVertices block
      in mapM (\<lambda>n.
           bind_err (read_at (connectivityView block) (n * block_num_elements + e)) (\<lambda>vertex_gid.
           bind_err (getLocalVertexId m b vertex_gid) (\<lambda>vertex_lid.
             mapM (\<lambda>d. read_at (coordsView block) (block_num_vertices * d + vertex_lid))
               [0..<mesh_dim m])))
         [0..<block_verts_per_elem])"

text \<open>Lines 330 to 341: the loop over the geometries for one element.\<close>

fun check_inclusion ::
  "('g \<Rightarrow> real \<Rightarrow> real list \<Rightarrow> bool) \<Rightarrow> real list list \<Rightarrow> real \<Rightarrow> bool \<Rightarrow> int
     \<Rightarrow> 'g list \<Rightarrow> int list list \<Rightarrow> int list list" where
  "check_inclusion pig node_coords tolerance allv gid (g # gs) (el # els) =
     (if elementInGeometry pig g node_coords tolerance allv then el @ [gid] else el)
       # check_inclusion pig node_coords tolerance allv gid gs els"
| "check_inclusion pig node_coords tolerance allv gid gs els = els"

text \<open>
  The loops over the blocks and their elements.  \<open>block_verts_per_elem\<close> is initialised to
  0 at line 295 and never assigned again, so it is 0 in every block.
\<close>

fun element_loop_geometry ::
  "('g \<Rightarrow> real \<Rightarrow> real list \<Rightarrow> bool) \<Rightarrow> mesh_manager \<Rightarrow> 'g list \<Rightarrow> real \<Rightarrow> bool \<Rightarrow> nat \<Rightarrow> nat
     \<Rightarrow> nat list \<Rightarrow> int list list \<Rightarrow> error + int list list" where
  "element_loop_geometry pig m geometry tolerance allv b block_verts_per_elem [] elements =
     Inr elements"
| "element_loop_geometry pig m geometry tolerance allv b block_verts_per_elem (e # es) elements =
     bind_err (node_coords_of m b block_verts_per_elem e) (\<lambda>node_coords.
       element_loop_geometry pig m geometry tolerance allv b block_verts_per_elem es
         (check_inclusion pig node_coords tolerance allv (elementsView (blocks m ! b) ! e)
            geometry elements))"

fun block_loop_geometry ::
  "('g \<Rightarrow> real \<Rightarrow> real list \<Rightarrow> bool) \<Rightarrow> mesh_manager \<Rightarrow> 'g list \<Rightarrow> real \<Rightarrow> bool \<Rightarrow> nat
     \<Rightarrow> nat list \<Rightarrow> int list list \<Rightarrow> error + int list list" where
  "block_loop_geometry pig m geometry tolerance allv block_verts_per_elem [] elements =
     Inr elements"
| "block_loop_geometry pig m geometry tolerance allv block_verts_per_elem (b # bs) elements =
     bind_err (element_loop_geometry pig m geometry tolerance allv b block_verts_per_elem
             [0..<numElements (blocks m ! b)] elements)
       (block_loop_geometry pig m geometry tolerance allv block_verts_per_elem bs)"

definition elementsInGeometry ::
  "('g \<Rightarrow> real \<Rightarrow> real list \<Rightarrow> bool) \<Rightarrow> rendezvous \<Rightarrow> 'g list \<Rightarrow> int list list \<Rightarrow> real \<Rightarrow> bool
     \<Rightarrow> error + int list list" where
  "elementsInGeometry pointInGeometry r geometry elements tolerance all_vertices_for_inclusion =
     (case d_rendezvous_mesh_manager r of
        None \<Rightarrow> Inl PreconditionFailure
      | Some m \<Rightarrow>
          let block_verts_per_elem = 0 in
          block_loop_geometry pointInGeometry m geometry tolerance all_vertices_for_inclusion
            block_verts_per_elem [0..<length (blocks m)]
            (resize (length geometry) [] elements))"

text \<open>
  The coordinates of the vertices that element \<open>e\<close> of block \<open>b\<close> has by its connectivity:
  the vertices the documentation of \<open>elementsInGeometry\<close> speaks of.
\<close>

definition element_vertex_coords :: "mesh_manager \<Rightarrow> nat \<Rightarrow> nat \<Rightarrow> error + real list list" where
  "element_vertex_coords m b e = node_coords_of m b (verticesPerElement (blocks m ! b)) e"


subsection \<open>Rendezvous::getMeshInBox\<close>

text \<open>
  \<open>std::pow\<close> at the exponents the code can pass: \<open>pow(x, 0)\<close> is 1 for every \<open>x\<close> and
  \<open>pow(x, 1)\<close> is \<open>x\<close>; elsewhere the real power.
\<close>

definition std_pow :: "real \<Rightarrow> real \<Rightarrow> real" where
  "std_pow x y = (if y = 0 then 1 else if y = 1 then x else x powr y)"

text \<open>
  Lines 387 to 390.  \<open>double pow = 1 / d_dimension\<close> divides the integer 1 by the integer
  \<open>d_dimension\<close> and converts the quotient.
\<close>

definition typical_length :: "bounding_box \<Rightarrow> nat \<Rightarrow> int \<Rightarrow> real" where
  "typical_length box dimension global_num_elements =
     (let box_volume = volume box dimension;
          pow = real (1 div dimension)
      in std_pow (box_volume / real_of_int global_num_elements) pow)"

text \<open>Lines 391 to 395: the loop over the axes, on the tuple of six bounds.\<close>

definition expand_bounds :: "real \<Rightarrow> real \<Rightarrow> nat \<Rightarrow> real list \<Rightarrow> real list" where
  "expand_bounds typical_len tol dimension box_bounds =
     fold (\<lambda>d bb. (bb[d := bb ! d - (typical_len + tol)])
                     [d + 3 := bb ! (d + 3) + (typical_len + tol)])
       [0..<dimension] box_bounds"

text \<open>
  Lines 385 to 396: the box that replaces \<open>d_global_box\<close>.  A dimension of 0 divides by
  zero; a dimension above 3 writes past the six bounds.
\<close>

definition expanded_box :: "rendezvous \<Rightarrow> mesh_manager \<Rightarrow> error + bounding_box" where
  "expanded_box r mesh =
     (if d_dimension r = 0 then Inl DivisionByZero
      else if 3 < d_dimension r then Inl OutOfRange
      else
        let tol = 1 / 10 ^ 4;
            box_bounds = getBounds (d_global_box r);
            len = typical_length (d_global_box r) (d_dimension r) (globalNumElements mesh)
        in Inr (BoundingBox (expand_bounds len tol (d_dimension r) box_bounds)))"

text \<open>Lines 423 to 435: the index of every vertex id and the vertices that are in the box.\<close>

definition vertex_indices_of :: "int list \<Rightarrow> (int \<rightharpoonup> nat)" where
  "vertex_indices_of vertex_gids =
     fold (\<lambda>n m. m(vertex_gids ! n \<mapsto> n)) [0..<length vertex_gids] Map.empty"

definition vertices_in_box_of ::
  "bounding_box \<Rightarrow> nat \<Rightarrow> mesh_block \<Rightarrow> error + bool list" where
  "vertices_in_box_of box dimension block =
     mapM (\<lambda>n. bind_err (blocked_point (coordsView block) dimension (numVertices block) n)
                 (\<lambda>vertex_coords. Inr (pointInBox box vertex_coords)))
       [0..<numVertices block]"

text \<open>The vertex indices of element \<open>n\<close>, as lines 454 and 455 and again 470 to 472 find them.\<close>

definition element_vertex_indices ::
  "(int \<rightharpoonup> nat) \<Rightarrow> mesh_block \<Rightarrow> nat \<Rightarrow> error + nat list" where
  "element_vertex_indices vertex_indices block n =
     mapM (\<lambda>i. bind_err (read_at (connectivityView block) (i * numElements block + n))
                 (find_second vertex_indices))
       [0..<verticesPerElement block]"

text \<open>
  Lines 449 to 476: the loop over the elements.  Each pass reads \<open>vertices_in_box\<close>, appends
  the flag of element \<open>n\<close> to \<open>elements_in_box\<close> and, when the element is in the box, sets
  the flag of each of its vertices in \<open>vertices_in_box\<close>, which the next pass reads.
\<close>

fun element_loop ::
  "(int \<rightharpoonup> nat) \<Rightarrow> mesh_block \<Rightarrow> nat list \<Rightarrow> bool list \<Rightarrow> bool list
     \<Rightarrow> error + (bool list \<times> bool list)" where
  "element_loop vertex_indices block [] vertices_in_box elements_in_box =
     Inr (vertices_in_box, elements_in_box)"
| "element_loop vertex_indices block (n # ns) vertices_in_box elements_in_box =
     bind_err (element_vertex_indices vertex_indices block n) (\<lambda>idxs.
       let this_element_in_box = list_ex (\<lambda>vertex_index. vertices_in_box ! vertex_index) idxs;
           vertices_in_box' =
             (if this_element_in_box
              then fold (\<lambda>vertex_index v. v[vertex_index := True]) idxs vertices_in_box
              else vertices_in_box)
       in element_loop vertex_indices block ns vertices_in_box'
            (elements_in_box @ [this_element_in_box]))"

text \<open>Lines 406 to 482: one block.\<close>

definition block_in_box ::
  "bounding_box \<Rightarrow> nat \<Rightarrow> mesh_block \<Rightarrow> error + (bool list \<times> bool list)" where
  "block_in_box box dimension block =
     bind_err (vertices_in_box_of box dimension block) (\<lambda>vertices_in_box.
       element_loop (vertex_indices_of (verticesView block)) block
         [0..<numElements block] vertices_in_box [])"

fun block_loop ::
  "bounding_box \<Rightarrow> nat \<Rightarrow> nat list \<Rightarrow> mesh_manager \<Rightarrow> error + mesh_manager" where
  "block_loop box dimension [] mesh = Inr mesh"
| "block_loop box dimension (block_id # ids) mesh =
     bind_err (block_in_box box dimension (blocks mesh ! block_id))
       (\<lambda>(vertices_in_box, elements_in_box).
          block_loop box dimension ids
            (setActiveElements elements_in_box block_id
               (setActiveVertices vertices_in_box block_id mesh)))"

definition getMeshInBox :: "rendezvous \<Rightarrow> mesh_manager \<Rightarrow> error + (rendezvous \<times> mesh_manager)" where
  "getMeshInBox r mesh_manager =
     bind_err (expanded_box r mesh_manager) (\<lambda>box.
       let r' = r\<lparr>d_global_box := box\<rparr> in
       bind_err (block_loop (d_global_box r') (d_dimension r') [0..<length (blocks mesh_manager)]
                   mesh_manager)
         (\<lambda>mesh'. Inr (r', mesh')))"

subsection \<open>Rendezvous::build\<close>

text \<open>
  What \<open>build\<close> calls beyond \<open>getMeshInBox\<close>.  \<open>createMeshPartitioner\<close> and the constructor
  of \<open>ElementTree\<close> are not among the sources.  \<open>sendMeshToRendezvous\<close> moves the mesh with
  distributors and importers of Tpetra over all ranks; of the engine's members it assigns
  \<open>d_element_src_procs_map\<close> only, and returns the rendezvous mesh manager.  The three are
  parameters of the model of \<open>build\<close> on one rank.
\<close>

record collaborators =
  createMeshPartitioner :: "mesh_manager option \<Rightarrow> nat \<Rightarrow> (real list \<Rightarrow> int) option"
  sendMeshToRendezvous ::
    "rendezvous \<Rightarrow> mesh_manager option \<Rightarrow> error + (mesh_manager \<times> (int \<rightharpoonup> int))"
  ElementTree :: "mesh_manager \<Rightarrow> (real list \<Rightarrow> real \<Rightarrow> int option) option"

definition build ::
  "collaborators \<Rightarrow> rendezvous \<Rightarrow> mesh_manager option
     \<Rightarrow> error + (rendezvous \<times> mesh_manager option)" where
  "build c r mesh_manager =
     bind_err (case mesh_manager of
                 None \<Rightarrow> Inr (r, None)
               | Some m \<Rightarrow> bind_err (getMeshInBox r m) (\<lambda>(r', m'). Inr (r', Some m')))
       (\<lambda>(r1, mesh_manager1).
          case createMeshPartitioner c mesh_manager1 (d_dimension r1) of
            None \<Rightarrow> Inl PostconditionFailure
          | Some p \<Rightarrow>
              let r2 = r1\<lparr>d_partitioner := Some p\<rparr> in
              bind_err (sendMeshToRendezvous c r2 mesh_manager1) (\<lambda>(rendezvous_mesh, src_procs).
                let r3 = r2\<lparr>d_rendezvous_mesh_manager := Some rendezvous_mesh,
                            d_element_src_procs_map := src_procs\<rparr>
                in case ElementTree c rendezvous_mesh of
                     None \<Rightarrow> Inl PostconditionFailure
                   | Some tree \<Rightarrow> Inr (r3\<lparr>d_element_tree := Some tree\<rparr>, mesh_manager1)))"


section \<open>Collective communication\<close>

text \<open>
  The ranks of the parent communicator are \<open>0 ..< R\<close>; a collective operation is a function
  of the values all ranks bring, as a list indexed by rank.

  \<open>Tpetra::Distributor\<close>: \<open>createFromSends\<close> is given, on each rank, the destination rank
  of each item to export, and \<open>doPostsAndWaits\<close> (one value per item) delivers them.  A
  rank receives the items addressed to it grouped by sending rank, in increasing order of
  rank, each group in the order of export.  A destination that is not a rank is an error.
\<close>

definition valid_procs :: "nat \<Rightarrow> int list \<Rightarrow> bool" where
  "valid_procs nranks procs = list_all (\<lambda>p. 0 \<le> p \<and> p < int nranks) procs"

definition imports_of :: "int list list \<Rightarrow> 'a list list \<Rightarrow> nat \<Rightarrow> 'a list" where
  "imports_of export_procs exports q =
     concat (map (\<lambda>p. map snd (filter (\<lambda>item. fst item = int q)
                                  (zip (export_procs ! p) (exports ! p))))
               [0..<length export_procs])"

definition doPostsAndWaits :: "int list list \<Rightarrow> 'a list list \<Rightarrow> error + 'a list list" where
  "doPostsAndWaits export_procs exports =
     (if list_all (valid_procs (length export_procs)) export_procs
      then Inr (map (imports_of export_procs exports) [0..<length export_procs])
      else Inl OutOfRange)"

text \<open>
  The replay of \<open>getImagesFrom\<close> and \<open>getLengthsFrom\<close> (lines 334 to 345): the sending
  rank of every item a rank received.
\<close>

definition images_from :: "int list list \<Rightarrow> nat \<Rightarrow> int list" where
  "images_from export_procs q =
     imports_of export_procs
       (map (\<lambda>p. replicate (length (export_procs ! p)) (int p)) [0..<length export_procs]) q"

text \<open>
  \<open>Tpetra::Export\<close> from a source map to a target map, both given by the global ids each
  rank holds (\<open>createNonContigMap\<close>).  The plan of a target rank lists, by source rank and
  source index, every source entry whose global id the target rank holds, with the local
  index it holds it at.  The maps exported to here hold a global id once.
\<close>

definition export_plan :: "int list list \<Rightarrow> int list \<Rightarrow> (nat \<times> nat \<times> nat) list" where
  "export_plan source_maps target_map =
     concat (map (\<lambda>p. concat (map (\<lambda>i.
               map (\<lambda>l. (p, i, l))
                 (filter (\<lambda>l. target_map ! l = source_maps ! p ! i) [0..<length target_map]))
               [0..<length (source_maps ! p)]))
             [0..<length source_maps])"

text \<open>
  \<open>doExport\<close> with \<open>Tpetra::INSERT\<close> on multivectors of \<open>num_vectors\<close> columns stored one
  after the other: every entry of the plan overwrites, in each column, the target value
  at its local index with the source value.  Target entries outside the plan are not
  written.
\<close>

definition doExport ::
  "(nat \<times> nat \<times> nat) list \<Rightarrow> nat \<Rightarrow> 'v list list \<Rightarrow> 'v list \<Rightarrow> 'v list" where
  "doExport plan num_vectors source_data target_data =
     (let target_len = length target_data div num_vectors in
      fold (\<lambda>(p, i, l) t.
              let source_len = length (source_data ! p) div num_vectors in
              fold (\<lambda>j t'. t'[j * target_len + l := source_data ! p ! (j * source_len + i)])
                [0..<num_vectors] t)
        plan target_data)"

text \<open>
  \<open>Tpetra::createMultiVectorFromView\<close> throws when the view is shorter than the map asks
  for: the stride must cover the local entries of the map, and the view all columns.
\<close>

definition createMultiVectorFromView ::
  "int list \<Rightarrow> 'v list \<Rightarrow> nat \<Rightarrow> nat \<Rightarrow> error + 'v list" where
  "createMultiVectorFromView local_map view lda num_vectors =
     (if lda < length local_map \<or> length view < lda * (num_vectors - 1) + length local_map
      then Inl OutOfRange else Inr view)"

section \<open>The shared domain map\<close>

text \<open>
  The members of \<open>SharedDomainMap\<close> on one rank.  \<open>d_dimension\<close> is written
  \<open>d_map_dimension\<close>, the name being taken by the engine.  The two Tpetra maps are the
  ordinals the rank holds; the exporter is its plan, absent before \<open>setup\<close>.
\<close>

record shared_domain_map =
  d_map_dimension :: nat
  d_store_missed_points :: bool
  d_target_map :: "int list"
  d_source_map :: "int list"
  d_source_elements :: "int list"
  d_target_coords :: "real list"
  d_missed_points :: "int list"
  d_target_g2l :: "int \<rightharpoonup> nat"
  d_source_to_target_exporter :: "(nat \<times> nat \<times> nat) list option"

subsection \<open>SharedDomainMap::getTargetPointsInBox\<close>

text \<open>
  Lines 669 to 691.  The invalid ordinal is the literal \<open>-1\<close> converted to \<open>GlobalOrdinal\<close>.
  The result is \<open>targets_in_box\<close> and the local indices appended to \<open>d_missed_points\<close>.
\<close>

definition getTargetPointsInBox ::
  "ordinal_type \<Rightarrow> bool \<Rightarrow> bounding_box \<Rightarrow> coord_field \<Rightarrow> int list
     \<Rightarrow> error + (int list \<times> int list)" where
  "getTargetPointsInBox T store_missed box target_coords target_ords =
     (if field_dim target_coords = 0 then Inl DivisionByZero
      else
        let dim_size = length (field_data target_coords) div field_dim target_coords in
        if dim_size \<noteq> length target_ords then Inl PreconditionFailure
        else
          bind_err (mapM (\<lambda>n. mapM (\<lambda>d. read_at (field_data target_coords) (dim_size * d + n))
                                  [0..<field_dim target_coords])
                      [0..<dim_size])
            (\<lambda>target_points.
               let targets_in_box =
                     map (\<lambda>n. if pointInBox box (target_points ! n) then target_ords ! n
                               else to_ordinal T (- 1))
                       [0..<dim_size];
                   missed = (if store_missed
                             then filter (\<lambda>n. targets_in_box ! n = to_ordinal T (- 1))
                                    [0..<dim_size]
                             else [])
               in Inr (targets_in_box, map int missed)))"

subsection \<open>SharedDomainMap::setup\<close>

text \<open>What a rank brings to \<open>setup\<close>, and what its engine calls.\<close>

record rank_input =
  source_mesh_manager :: "mesh_manager option"
  target_coord_manager :: "coord_field option"
  rank_collaborators :: collaborators

text \<open>Lines 138 to 150: the dimensions of the managers that exist.\<close>

definition check_dimensions :: "nat \<Rightarrow> rank_input \<Rightarrow> error + unit" where
  "check_dimensions dimension inp =
     (if (case source_mesh_manager inp of None \<Rightarrow> False | Some m \<Rightarrow> mesh_dim m \<noteq> dimension)
      then Inl PreconditionFailure
      else if (case target_coord_manager inp of None \<Rightarrow> False
               | Some f \<Rightarrow> field_dim f \<noteq> dimension)
      then Inl PreconditionFailure
      else Inr ())"

text \<open>
  Modelled from the spec: \<open>BoundingBox::intersectBoxes\<close> is not among the sources.  The
  intersection is the per-axis maximum of the minima and minimum of the maxima; the boxes
  intersect when it is not empty on any axis.
\<close>

definition intersectBoxes :: "bounding_box \<Rightarrow> bounding_box \<Rightarrow> bool \<times> bounding_box" where
  "intersectBoxes a b =
     (let box = \<lparr> x_min = max (x_min a) (x_min b), y_min = max (y_min a) (y_min b),
                  z_min = max (z_min a) (z_min b), x_max = min (x_max a) (x_max b),
                  y_max = min (y_max a) (y_max b), z_max = min (z_max a) (z_max b) \<rparr>
      in (x_min box \<le> x_max box \<and> y_min box \<le> y_max box \<and> z_min box \<le> z_max box, box))"

text \<open>Lines 186 to 190.\<close>

definition shared_domain_box :: "bounding_box \<Rightarrow> bounding_box \<Rightarrow> error + bounding_box" where
  "shared_domain_box source_box target_box =
     (let (has_intersect, box) = intersectBoxes source_box target_box
      in if has_intersect then Inr box else Inl AssertionFailure)"

text \<open>
  Lines 198 to 208: the coordinate dimension, broadcast from rank 0 of the target
  communicator.  Modelled from the spec: \<open>CommIndexer\<close> is not among the sources; \<open>l2g(0)\<close>
  is taken to be the lowest rank that holds target coordinates, and a broadcast without
  such a rank is an error.
\<close>

definition broadcast_coord_dim :: "rank_input list \<Rightarrow> error + nat" where
  "broadcast_coord_dim inputs =
     (case List.map_filter target_coord_manager inputs of
        [] \<Rightarrow> Inl PreconditionFailure
      | f # _ \<Rightarrow> Inr (field_dim f))"

definition coords_view_of :: "rank_input \<Rightarrow> real list" where
  "coords_view_of inp = (case target_coord_manager inp of None \<Rightarrow> [] | Some f \<Rightarrow> field_data f)"

text \<open>\<open>Teuchos::Array::remove\<close> at an index.\<close>

definition remove_at :: "nat \<Rightarrow> 'a list \<Rightarrow> 'a list" where
  "remove_at i xs = take i xs @ drop (Suc i) xs"

text \<open>
  Lines 210 to 257 on one rank: the rendezvous rank of every target point, the points in
  the box of the engine, and the removal of the others from both arrays.
\<close>

record routed =
  sent_procs :: "int list"
  sent_ordinals :: "int list"
  missed_in_box :: "int list"

definition route_targets ::
  "ordinal_type \<Rightarrow> bool \<Rightarrow> rendezvous \<Rightarrow> rank_input \<Rightarrow> int list \<Rightarrow> error + routed" where
  "route_targets T store_missed engine inp target_ords =
     bind_err (procsContainingPoints engine (coords_view_of inp)) (\<lambda>procs.
     bind_err (case target_coord_manager inp of
                 None \<Rightarrow> Inr ([], [])
               | Some f \<Rightarrow> getTargetPointsInBox T store_missed (getBox engine) f target_ords)
       (\<lambda>(in_box, missed).
          let not_in_box = rev (filter (\<lambda>i. in_box ! i = to_ordinal T (- 1))
                                  [0..<length in_box]);
              procs' = fold remove_at not_in_box procs;
              in_box' = filter (\<lambda>g. g \<noteq> to_ordinal T (- 1)) in_box;
              targets_in_box_size = length in_box'
          in Inr \<lparr> sent_procs = resize targets_in_box_size 0 procs',
                   sent_ordinals = in_box',
                   missed_in_box = missed \<rparr>))"

text \<open>
  Lines 300 to 326 on one rank: the indices in rendezvous space of the points not found in
  the mesh and, when missed points are stored, their ordinals.  The element of a point is
  compared with the literal \<open>-1\<close>.
\<close>

record missed =
  not_in_mesh :: "nat list"
  missed_in_mesh_idx :: "nat list"
  missed_in_mesh_ordinal :: "int list"

definition find_missed ::
  "ordinal_type \<Rightarrow> bool \<Rightarrow> int list \<Rightarrow> int list \<Rightarrow> error + missed" where
  "find_missed T store_missed rendezvous_elements rendezvous_points =
     (let idx = filter (\<lambda>target_index. rendezvous_elements ! target_index = to_ordinal T (- 1))
                  [0..<length rendezvous_elements]
      in if store_missed
         then bind_err (mapM (read_at rendezvous_points) idx) (\<lambda>ordinals.
                Inr \<lparr> not_in_mesh = idx, missed_in_mesh_idx = idx,
                      missed_in_mesh_ordinal = ordinals \<rparr>)
         else Inr \<lparr> not_in_mesh = idx, missed_in_mesh_idx = [], missed_in_mesh_ordinal = [] \<rparr>)"

text \<open>
  Lines 330 to 378 over all ranks: the missed ordinals go back to the ranks their points
  came from and are appended, as local indices, to \<open>d_missed_points\<close>.
\<close>

definition return_missed ::
  "bool \<Rightarrow> int list list \<Rightarrow> missed list \<Rightarrow> (int \<rightharpoonup> nat) list \<Rightarrow> int list list
     \<Rightarrow> error + int list list" where
  "return_missed store_missed to_rendezvous_procs found g2l missed_points =
     (if store_missed
      then
        bind_err (mapM (\<lambda>q. mapM (read_at (images_from to_rendezvous_procs q))
                               (missed_in_mesh_idx (found ! q)))
                    [0..<length to_rendezvous_procs])
          (\<lambda>missed_target_procs.
             bind_err (doPostsAndWaits missed_target_procs (map missed_in_mesh_ordinal found))
               (\<lambda>received.
                  mapM (\<lambda>q. bind_err (mapM (find_second (g2l ! q)) (received ! q))
                               (\<lambda>local. Inr (missed_points ! q @ map int local)))
                    [0..<length to_rendezvous_procs]))
      else Inr missed_points)"

text \<open>
  Lines 385 to 412 on one rank: the points not in the mesh leave \<open>rendezvous_points\<close> by
  index, \<open>rendezvous_elements\<close> loses the entries equal to \<open>-1\<close> and
  \<open>rendezvous_element_src_procs\<close> the entries equal to \<open>-1\<close>; the two sizes must agree.
\<close>

record kept =
  kept_points :: "int list"
  kept_elements :: "int list"
  kept_src_procs :: "int list"

definition remove_missed ::
  "ordinal_type \<Rightarrow> nat list \<Rightarrow> int list \<Rightarrow> int list \<Rightarrow> int list \<Rightarrow> error + kept" where
  "remove_missed T not_in_mesh_idx rendezvous_points rendezvous_elements
       rendezvous_element_src_procs =
     (let points' = fold remove_at (rev not_in_mesh_idx) rendezvous_points;
          elements' = filter (\<lambda>e. e \<noteq> to_ordinal T (- 1)) rendezvous_elements;
          src_procs' = filter (\<lambda>p. p \<noteq> - 1) rendezvous_element_src_procs;
          rendezvous_elements_size = length elements';
          rendezvous_element_src_procs_size = length src_procs'
      in if rendezvous_elements_size \<noteq> rendezvous_element_src_procs_size
         then Inl InvariantFailure
         else Inr \<lparr> kept_points = resize rendezvous_elements_size 0 points',
                    kept_elements = elements',
                    kept_src_procs = src_procs' \<rparr>)"

text \<open>
  Lines 414 to 458 over all ranks: elements and point ordinals go to the source ranks, the
  coordinates follow through an export, and the plan from source to target is built.
\<close>

definition ship_to_source ::
  "nat \<Rightarrow> bool \<Rightarrow> nat \<Rightarrow> ordinals_result list \<Rightarrow> int list list \<Rightarrow> real list list
     \<Rightarrow> int list list \<Rightarrow> kept list \<Rightarrow> error + shared_domain_map list" where
  "ship_to_source dimension store_missed coord_dim ords rendezvous_points rendezvous_coords
       missed_points keep =
     bind_err (doPostsAndWaits (map kept_src_procs keep) (map kept_elements keep))
       (\<lambda>source_elements.
     bind_err (doPostsAndWaits (map kept_src_procs keep) (map kept_points keep))
       (\<lambda>source_points.
          Inr (map (\<lambda>q.
                 let num_source_elements = length (source_elements ! q)
                 in \<lparr> d_map_dimension = dimension,
                      d_store_missed_points = store_missed,
                      d_target_map = target_ordinals (ords ! q),
                      d_source_map = source_points ! q,
                      d_source_elements = source_elements ! q,
                      d_target_coords =
                        doExport (export_plan rendezvous_points (source_points ! q)) coord_dim
                          rendezvous_coords (replicate (num_source_elements * coord_dim) 0),
                      d_missed_points = missed_points ! q,
                      d_target_g2l = target_g2l (ords ! q),
                      d_source_to_target_exporter =
                        Some (export_plan source_points (target_ordinals (ords ! q))) \<rparr>)
               [0..<length keep])))"

text \<open>
  \<open>setup\<close> on a map fresh from its constructor, over all ranks.  The global boxes of the
  source mesh and of the target coordinates, as broadcast from the roots, and the
  tolerance of the search are parameters.
\<close>

definition sdm_setup ::
  "ordinal_type \<Rightarrow> nat \<Rightarrow> bool \<Rightarrow> real \<Rightarrow> bounding_box \<Rightarrow> bounding_box \<Rightarrow> rank_input list
     \<Rightarrow> error + shared_domain_map list" where
  "sdm_setup T dimension store_missed tolerance source_box target_box inputs =
     (let ranks = [0..<length inputs] in
      bind_err (mapM (check_dimensions dimension) inputs) (\<lambda>_.
      bind_err (computePointOrdinals T store_missed (map target_coord_manager inputs)) (\<lambda>ords.
      bind_err (shared_domain_box source_box target_box) (\<lambda>box.
      bind_err (mapM (\<lambda>inp. build (rank_collaborators inp) (Rendezvous dimension box)
                              (source_mesh_manager inp)) inputs) (\<lambda>built.
      bind_err (broadcast_coord_dim inputs) (\<lambda>coord_dim.
      bind_err (mapM (\<lambda>q. route_targets T store_missed (fst (built ! q)) (inputs ! q)
                            (target_ordinals (ords ! q))) ranks) (\<lambda>sent.
      bind_err (doPostsAndWaits (map sent_procs sent) (map sent_ordinals sent))
        (\<lambda>rendezvous_points.
      let rendezvous_coords =
            map (\<lambda>q. doExport (export_plan (map target_ordinals ords) (rendezvous_points ! q))
                        coord_dim (map coords_view_of inputs)
                        (replicate (length (rendezvous_points ! q) * coord_dim) 0)) ranks
      in
      bind_err (mapM (\<lambda>q. elementsContainingPoints T (fst (built ! q)) (rendezvous_coords ! q)
                            tolerance) ranks) (\<lambda>searched.
      bind_err (mapM (\<lambda>q. find_missed T store_missed (fst (searched ! q))
                            (rendezvous_points ! q)) ranks) (\<lambda>found.
      bind_err (return_missed store_missed (map sent_procs sent) found
                  (map target_g2l ords) (map missed_in_box sent)) (\<lambda>missed_points.
      bind_err (mapM (\<lambda>q. remove_missed T (not_in_mesh (found ! q)) (rendezvous_points ! q)
                            (fst (searched ! q)) (snd (searched ! q))) ranks) (\<lambda>keep.
      ship_to_source dimension store_missed coord_dim ords rendezvous_points rendezvous_coords
        missed_points keep))))))))))))"

subsection \<open>SharedDomainMap::apply\<close>

text \<open>
  Lines 527 to 547 on one rank: the evaluations of the source function, as the data of the
  source multivector.
\<close>

definition source_vector_of ::
  "shared_domain_map \<Rightarrow> (int list \<Rightarrow> real list \<Rightarrow> 'v field) option \<Rightarrow> error + 'v list" where
  "source_vector_of s source_evaluator =
     bind_err (case source_evaluator of
                 None \<Rightarrow> Inr []
               | Some evaluate \<Rightarrow>
                   let function_evaluations = evaluate (d_source_elements s) (d_target_coords s)
                   in if field_dim function_evaluations \<noteq> d_map_dimension s
                      then Inl PreconditionFailure
                      else Inr (field_data function_evaluations))
       (\<lambda>source_field_copy.
          if d_map_dimension s = 0 then Inl DivisionByZero
          else
            let source_size = length source_field_copy div d_map_dimension s
            in createMultiVectorFromView (d_source_map s) source_field_copy source_size
                 (d_map_dimension s))"

text \<open>
  Lines 549 to 587 on one rank, given the source vectors of all ranks.  Modelled from the
  spec: \<open>FieldTools::putScalar\<close> is not among the sources; it sets every entry of the field.
  The target multivector is a view of the target field, so the export writes the field.
\<close>

definition target_field_of ::
  "shared_domain_map \<Rightarrow> 'v list list \<Rightarrow> ('v::zero) field option
     \<Rightarrow> error + 'v field option" where
  "target_field_of s source_vectors target_space_manager =
     (if d_map_dimension s = 0 then Inl DivisionByZero
      else
        let target_field_view = (case target_space_manager of None \<Rightarrow> []
                                 | Some f \<Rightarrow> field_data f);
            target_size = length target_field_view div d_map_dimension s
        in if (case target_space_manager of None \<Rightarrow> False
               | Some f \<Rightarrow> target_size \<noteq> length (d_target_map s) \<or>
                            field_dim f \<noteq> d_map_dimension s)
           then Inl PreconditionFailure
           else
             bind_err (createMultiVectorFromView (d_target_map s) target_field_view target_size
                         (d_map_dimension s)) (\<lambda>_.
               case d_source_to_target_exporter s of
                 None \<Rightarrow> Inl PreconditionFailure
               | Some plan \<Rightarrow>
                   (case target_space_manager of
                      None \<Rightarrow> Inr None
                    | Some f \<Rightarrow>
                        let zeroed = replicate (length (field_data f)) 0
                        in Inr (Some (f\<lparr>field_data :=
                                  doExport plan (d_map_dimension s) source_vectors zeroed\<rparr>)))))"

text \<open>
  \<open>apply\<close> over all ranks: the maps, which it leaves as they are, and the target fields
  after the export.
\<close>

definition sdm_apply ::
  "shared_domain_map list \<Rightarrow> (int list \<Rightarrow> real list \<Rightarrow> 'v field) option list
     \<Rightarrow> ('v::zero) field option list
     \<Rightarrow> error + (shared_domain_map list \<times> 'v field option list)" where
  "sdm_apply maps source_evaluators target_space_managers =
     (let ranks = [0..<length maps] in
      bind_err (mapM (\<lambda>q. source_vector_of (maps ! q) (source_evaluators ! q)) ranks)
        (\<lambda>source_vectors.
      bind_err (mapM (\<lambda>q. target_field_of (maps ! q) source_vectors (target_space_managers ! q))
                  ranks)
        (\<lambda>targets. Inr (maps, targets))))"


section \<open>Notions for stating properties\<close>

text \<open>
  The slots of a target buffer that a plan writes: for each entry of the plan, the local
  index of the entry in each of the \<open>num_vectors\<close> columns.
\<close>

definition plan_slots :: "(nat \<times> nat \<times> nat) list \<Rightarrow> nat \<Rightarrow> nat \<Rightarrow> nat list" where
  "plan_slots plan num_vectors target_len =
     concat (map (\<lambda>(p, i, l). map (\<lambda>j. j * target_len + l) [0..<num_vectors]) plan)"

text \<open>The error a run ended with, if it did.\<close>

definition error_of :: "error + 'a \<Rightarrow> error option" where
  "error_of r = (case r of Inl e \<Rightarrow> Some e | Inr _ \<Rightarrow> None)"


section \<open>Concrete meshes and engines\<close>

text \<open>A one-dimensional geometry: the interval \<open>[lo, hi]\<close>, widened by the tolerance.\<close>

definition interval_geom :: "real \<times> real \<Rightarrow> real \<Rightarrow> real list \<Rightarrow> bool" where
  "interval_geom g tol p = (fst g - tol \<le> p ! 0 \<and> p ! 0 \<le> snd g + tol)"

text \<open>A line mesh of one element, number 100, from vertex 10 at \<open>x = 5\<close> to vertex 11 at \<open>x = 6\<close>.\<close>

definition line_mesh :: mesh_manager where
  "line_mesh = \<lparr> blocks = [\<lparr> verticesView = [10, 11], coordsView = [5, 6],
                              elementsView = [100], connectivityView = [10, 11],
                              verticesPerElement = 2 \<rparr>],
                 mesh_dim = 1, globalNumElements = 1,
                 active_vertices = (\<lambda>b. []), active_elements = (\<lambda>b. []) \<rparr>"

definition line_engine :: rendezvous where
  "line_engine =
     (Rendezvous 1 \<lparr> x_min = 0, y_min = 0, z_min = 0, x_max = 10, y_max = 0, z_max = 0 \<rparr>)
       \<lparr> d_rendezvous_mesh_manager := Some line_mesh \<rparr>"

text \<open>The cube \<open>[0, 2]\<^sup>3\<close>, of volume 8.\<close>

definition cube :: bounding_box where
  "cube = \<lparr> x_min = 0, y_min = 0, z_min = 0, x_max = 2, y_max = 2, z_max = 2 \<rparr>"

text \<open>
  A chain of two line elements, \<open>0 = (v0, v1)\<close> and \<open>1 = (v1, v2)\<close>, with the vertices at
  \<open>x = 1, 2, 3\<close>, and an engine over the box \<open>[0, 1]\<close>.
\<close>

definition chain_mesh :: mesh_manager where
  "chain_mesh = \<lparr> blocks = [\<lparr> verticesView = [0, 1, 2], coordsView = [1, 2, 3],
                               elementsView = [0, 1], connectivityView = [0, 1, 1, 2],
                               verticesPerElement = 2 \<rparr>],
                  mesh_dim = 1, globalNumElements = 2,
                  active_vertices = (\<lambda>b. []), active_elements = (\<lambda>b. []) \<rparr>"

definition unit_engine :: rendezvous where
  "unit_engine =
     Rendezvous 1 \<lparr> x_min = 0, y_min = 0, z_min = 0, x_max = 1, y_max = 0, z_max = 0 \<rparr>"

text \<open>
  An engine in rendezvous space whose tree finds element 7 for the points of \<open>[0, 1]\<close>;
  element 7 came from rank 2.
\<close>

definition unit_tree :: "real list \<Rightarrow> real \<Rightarrow> int option" where
  "unit_tree point tol = (if 0 - tol \<le> point ! 0 \<and> point ! 0 \<le> 1 + tol then Some 7 else None)"

definition search_engine :: rendezvous where
  "search_engine = unit_engine \<lparr> d_element_tree := Some unit_tree,
                                 d_element_src_procs_map := [7 \<mapsto> 2] \<rparr>"


section \<open>A concrete transfer on one rank\<close>

text \<open>
  The source is one line element, number 7, from \<open>x = 0\<close> to \<open>x = 1\<close>; the targets are the
  points \<open>x = 1/2\<close>, inside the element, and \<open>x = 3/2\<close>, inside the enlarged box
  \<open>[-0.0001, 1.5001]\<close> of the engine but in no element.  The partitioner sends every point
  to rank 0, the mesh arrives in rendezvous space as it is, and the tree is \<open>unit_tree\<close>.
\<close>

definition segment_mesh :: mesh_manager where
  "segment_mesh = \<lparr> blocks = [\<lparr> verticesView = [0, 1], coordsView = [0, 1],
                                 elementsView = [7], connectivityView = [0, 1],
                                 verticesPerElement = 2 \<rparr>],
                    mesh_dim = 1, globalNumElements = 1,
                    active_vertices = (\<lambda>b. []), active_elements = (\<lambda>b. []) \<rparr>"

definition serial_collaborators :: collaborators where
  "serial_collaborators =
     \<lparr> createMeshPartitioner = (\<lambda>m d. Some (\<lambda>point. 0)),
       sendMeshToRendezvous = (\<lambda>r m. case m of None \<Rightarrow> Inl PreconditionFailure
                                      | Some mesh \<Rightarrow> Inr (mesh, [7 \<mapsto> 0])),
       ElementTree = (\<lambda>m. Some unit_tree) \<rparr>"

definition serial_input :: rank_input where
  "serial_input =
     \<lparr> source_mesh_manager = Some segment_mesh,
       target_coord_manager = Some \<lparr> field_dim = 1, field_data = [1 / 2, 3 / 2] \<rparr>,
       rank_collaborators = serial_collaborators \<rparr>"

definition segment_box :: bounding_box where
  "segment_box = \<lparr> x_min = 0, y_min = 0, z_min = 0, x_max = 1, y_max = 0, z_max = 0 \<rparr>"

definition points_box :: bounding_box where
  "points_box = \<lparr> x_min = 1 / 2, y_min = 0, z_min = 0, x_max = 3 / 2, y_max = 0, z_max = 0 \<rparr>"

text \<open>The engine of this transfer in rendezvous space, as far as the search reads it.\<close>

definition serial_engine :: rendezvous where
  "serial_engine = unit_engine \<lparr> d_element_tree := Some unit_tree,
                                 d_element_src_procs_map := [7 \<mapsto> 0] \<rparr>"

text \<open>
  The map this transfer ends with when the ordinals are unsigned, and an evaluator that
  returns ten times the coordinate.
\<close>

definition serial_map :: shared_domain_map where
  "serial_map =
     \<lparr> d_map_dimension = 1, d_store_missed_points = True, d_target_map = [0, 1],
       d_source_map = [0], d_source_elements = [7], d_target_coords = [1 / 2],
       d_missed_points = [1], d_target_g2l = [0 \<mapsto> 0, 1 \<mapsto> 1],
       d_source_to_target_exporter = Some [(0, 0, 0)] \<rparr>"

definition ten_times :: "int list \<Rightarrow> real list \<Rightarrow> real field" where
  "ten_times element_ids coords = \<lparr> field_dim = 1, field_data = map (\<lambda>c. 10 * c) coords \<rparr>"


section \<open>Properties\<close>







subsection \<open>Target ordinals are unique\<close>










subsection \<open>Steps that can fail\<close>

lemma bind_err_Inr [simp]: "bind_err (Inr x) f = f x"
  by (simp add: bind_err_def)

lemma bind_err_Inl [simp]: "bind_err (Inl e) f = Inl e"
  by (simp add: bind_err_def)

lemma bind_err_eq_Inr:
  "bind_err m f = Inr y \<longleftrightarrow> (\<exists>x. m = Inr x \<and> f x = Inr y)"
  by (cases m) simp_all

lemma mapM_Inr:
  "(\<And>x. x \<in> set xs \<Longrightarrow> f x = Inr (g x)) \<Longrightarrow> mapM f xs = Inr (map g xs)"
  by (induction xs) simp_all

lemma mapM_length: "mapM f xs = Inr ys \<Longrightarrow> length ys = length xs"
  by (induction xs arbitrary: ys) (auto simp: bind_err_eq_Inr)

lemma mapM_nth:
  "mapM f xs = Inr ys \<Longrightarrow> i < length xs \<Longrightarrow> f (xs ! i) = Inr (ys ! i)"
proof (induction xs arbitrary: ys i)
  case Nil
  then show ?case by simp
next
  case (Cons x xs)
  then show ?case by (cases i) (auto simp: bind_err_eq_Inr)
qed

subsection \<open>Rendezvous::elementsContainingPoints\<close>

lemma blocked_index_in_range:
  fixes d n N dimension :: nat
  assumes "d < dimension" "n < N" "N = len div dimension"
  shows "d * N + n < len"
proof -
  have "d * N + n < (d + 1) * N" using assms by simp
  also have "\<dots> \<le> dimension * N" using assms by (intro mult_le_mono1) simp
  also have "\<dots> \<le> len" using assms by simp
  finally show ?thesis .
qed

lemma blocked_point_Inr:
  assumes "n < length coords div dimension"
  shows "blocked_point coords dimension (length coords div dimension) n =
           Inr (map (\<lambda>d. coords ! (d * (length coords div dimension) + n)) [0..<dimension])"
  unfolding blocked_point_def
proof (rule mapM_Inr)
  fix d assume "d \<in> set [0..<dimension]"
  then have "d < dimension" by simp
  from blocked_index_in_range[OF this assms refl]
  show "read_at coords (d * (length coords div dimension) + n) =
          Inr (coords ! (d * (length coords div dimension) + n))"
    by (simp add: read_at_def)
qed


text \<open>
  C6.  With a tree whose finds are all recorded in the element-to-source-rank map and a
  dimension above 0, \<open>elementsContainingPoints\<close> on a blocked list of
  \<open>N = size / dimension\<close> points returns two arrays of length \<open>N\<close>; at each index \<open>n\<close>, if
  the tree finds an element for point \<open>n\<close>, \<open>elements[n]\<close> is that element and
  \<open>element_src_procs[n]\<close> the rank the map records for it, and otherwise \<open>elements[n]\<close> is
  the maximum of the ordinal type and \<open>element_src_procs[n]\<close> is -1.
\<close>

theorem elementsContainingPoints_result:
  assumes dimension: "0 < d_dimension r"
    and tree: "d_element_tree r = Some findPoint"
    and inv: "\<forall>point e. findPoint point tolerance = Some e \<longrightarrow>
                e \<in> dom (d_element_src_procs_map r)"
    and N: "N = length coords div d_dimension r"
  shows "\<exists>elements element_src_procs.
           elementsContainingPoints T r coords tolerance = Inr (elements, element_src_procs) \<and>
           length elements = N \<and> length element_src_procs = N \<and>
           (\<forall>n < N.
              case findPoint (map (\<lambda>d. coords ! (d * N + n)) [0..<d_dimension r]) tolerance of
                Some e \<Rightarrow> elements ! n = e \<and>
                          d_element_src_procs_map r e = Some (element_src_procs ! n)
              | None \<Rightarrow> elements ! n = ordinal_max T \<and> element_src_procs ! n = - 1)"
proof -
  let ?pt = "\<lambda>n. map (\<lambda>d. coords ! (d * N + n)) [0..<d_dimension r]"
  let ?g = "\<lambda>n. case findPoint (?pt n) tolerance of
                  Some e \<Rightarrow> (e, the (d_element_src_procs_map r e))
                | None \<Rightarrow> (ordinal_max T, - 1)"
  let ?f = "\<lambda>n. bind_err (blocked_point coords (d_dimension r) N n)
                  (elementContainingPoint T findPoint (d_element_src_procs_map r) tolerance)"
  have step: "?f n = Inr (?g n)" if "n \<in> set [0..<N]" for n
  proof -
    from that have "n < length coords div d_dimension r" using N by simp
    then have bp: "blocked_point coords (d_dimension r) N n = Inr (?pt n)"
      using blocked_point_Inr[of n coords "d_dimension r"] N by simp
    show ?thesis
    proof (cases "findPoint (?pt n) tolerance")
      case None
      then show ?thesis by (simp add: bp elementContainingPoint_def)
    next
      case (Some e)
      with inv obtain p where "d_element_src_procs_map r e = Some p" by blast
      with Some show ?thesis by (simp add: bp elementContainingPoint_def find_second_def)
    qed
  qed
  define els where "els = map fst (map ?g [0..<N])"
  define prs where "prs = map snd (map ?g [0..<N])"
  have run: "elementsContainingPoints T r coords tolerance = Inr (els, prs)"
    using dimension tree mapM_Inr[of "[0..<N]" ?f ?g, OF step]
    by (simp add: elementsContainingPoints_def N[symmetric] Let_def els_def prs_def)
  have len: "length els = N" "length prs = N"
    by (simp_all add: els_def prs_def)
  have each: "case findPoint (?pt n) tolerance of
                Some e \<Rightarrow> els ! n = e \<and> d_element_src_procs_map r e = Some (prs ! n)
              | None \<Rightarrow> els ! n = ordinal_max T \<and> prs ! n = - 1"
    if "n < N" for n
  proof (cases "findPoint (?pt n) tolerance")
    case None
    then show ?thesis using that by (simp add: els_def prs_def)
  next
    case (Some e)
    with inv obtain p where "d_element_src_procs_map r e = Some p" by blast
    with Some show ?thesis using that by (simp add: els_def prs_def)
  qed
  show ?thesis
    using run len each by blast
qed

theorem elementsContainingPoints_result_witness:
  "\<exists>elements element_src_procs.
     elementsContainingPoints Int32 search_engine [1 / 2, 5] 0 = Inr (elements, element_src_procs) \<and>
     length elements = 2 \<and> length element_src_procs = 2 \<and>
     elements ! 0 = 7 \<and> element_src_procs ! 0 = 2 \<and>
     elements ! 1 = 2147483647 \<and> element_src_procs ! 1 = - 1"
proof -
  have h1: "0 < d_dimension search_engine"
    by (simp add: search_engine_def unit_engine_def Rendezvous_def)
  have h2: "d_element_tree search_engine = Some unit_tree"
    by (simp add: search_engine_def)
  have h3: "\<forall>point e. unit_tree point 0 = Some e \<longrightarrow>
              e \<in> dom (d_element_src_procs_map search_engine)"
    by (simp add: unit_tree_def search_engine_def)
  have h4: "(2::nat) = length [1 / 2, 5::real] div d_dimension search_engine"
    by (simp add: search_engine_def unit_engine_def Rendezvous_def)
  from elementsContainingPoints_result[OF h1 h2 h3 h4, of Int32]
  obtain els prs where
    run: "elementsContainingPoints Int32 search_engine [1 / 2, 5] 0 = Inr (els, prs)"
    and len: "length els = 2" "length prs = 2"
    and each: "\<forall>n < 2.
              case unit_tree (map (\<lambda>d. [1 / 2, 5] ! (d * 2 + n)) [0..<d_dimension search_engine]) 0 of
                Some e \<Rightarrow> els ! n = e \<and> d_element_src_procs_map search_engine e = Some (prs ! n)
              | None \<Rightarrow> els ! n = ordinal_max Int32 \<and> prs ! n = - 1"
    by blast
  have "els ! 0 = 7 \<and> prs ! 0 = 2"
    using each[rule_format, of 0]
    by (simp add: unit_tree_def search_engine_def unit_engine_def Rendezvous_def)
  moreover have "els ! 1 = 2147483647 \<and> prs ! 1 = - 1"
    using each[rule_format, of 1]
    by (simp add: unit_tree_def ordinal_max_def search_engine_def unit_engine_def Rendezvous_def)
  ultimately show ?thesis using run len by blast
qed

subsection \<open>Rendezvous::elementsInGeometry\<close>

text \<open>
  C3.  \<open>elementsInGeometry\<close> does not look at the vertices of an element: the node
  coordinates it passes on are those of \<open>block_verts_per_elem = 0\<close> vertices.  With all
  vertices required, the line element 100, whose vertices lie at 5 and 6, is listed for the
  interval \<open>[0, 1]\<close>, which holds neither; with one vertex sufficing, it is not listed for
  the interval \<open>[0, 10]\<close>, which holds both.
\<close>

theorem elementsInGeometry_ignores_vertices:
  "elementsInGeometry interval_geom line_engine [(0, 1)] [] 0 True = Inr [[100]] \<and>
   element_vertex_coords line_mesh 0 0 = Inr [[5], [6]] \<and>
   \<not> list_all (interval_geom (0, 1) 0) [[5], [6]] \<and>
   elementsInGeometry interval_geom line_engine [(0, 10)] [] 0 False = Inr [[]] \<and>
   list_ex (interval_geom (0, 10) 0) [[5], [6]]"
proof -
  have "elementsInGeometry interval_geom line_engine [(0, 1)] [] 0 True = Inr [[100]]"
    by (simp add: elementsInGeometry_def line_engine_def line_mesh_def Rendezvous_def resize_def
        numElements_def node_coords_of_def numVertices_def elementInGeometry_def)
  moreover have "element_vertex_coords line_mesh 0 0 = Inr [[5], [6]]"
    by (simp add: element_vertex_coords_def line_mesh_def node_coords_of_def numElements_def
        numVertices_def read_at_def getLocalVertexId_def upt_rec)
  moreover have "\<not> list_all (interval_geom (0, 1) 0) [[5], [6]]"
    by (simp add: interval_geom_def)
  moreover have "elementsInGeometry interval_geom line_engine [(0, 10)] [] 0 False = Inr [[]]"
    by (simp add: elementsInGeometry_def line_engine_def line_mesh_def Rendezvous_def resize_def
        numElements_def node_coords_of_def numVertices_def elementInGeometry_def)
  moreover have "list_ex (interval_geom (0, 10) 0) [[5], [6]]"
    by (simp add: interval_geom_def)
  ultimately show ?thesis by blast
qed

subsection \<open>Rendezvous::getMeshInBox\<close>

lemma typical_length_dim1:
  "typical_length box 1 n = volume box 1 / real_of_int n"
  by (simp add: typical_length_def std_pow_def)

lemma typical_length_dim23:
  "2 \<le> dimension \<Longrightarrow> typical_length box dimension n = 1"
  by (simp add: typical_length_def std_pow_def)

lemma cube_root_of_8: "(8::real) powr (1 / 3) = 2"
proof -
  have "(8::real) = 2 powr 3" by simp
  then have "(8::real) powr (1 / 3) = (2 powr 3) powr (1 / 3)" by simp
  also have "\<dots> = 2" by (simp only: powr_powr) simp
  finally show ?thesis .
qed

text \<open>
  C2.  In three dimensions the exponent is \<open>1 / 3\<close> in integers, which is 0.  For the cube
  \<open>[0, 2]\<^sup>3\<close> and one element, \<open>(volume / elements)\<close> to the real power \<open>1/3\<close> is 2, yet
  \<open>typical_length\<close> is 1 and every face moves by \<open>1 + 1e-4\<close>, not by \<open>2 + 1e-4\<close>.
\<close>

theorem getMeshInBox_exponent_truncated:
  "typical_length cube 3 1 = 1 \<and>
   (volume cube 3 / real_of_int 1) powr (1 / real 3) = 2 \<and>
   expanded_box (Rendezvous 3 cube) (line_mesh\<lparr>mesh_dim := 3\<rparr>) =
     Inr \<lparr> x_min = 0 - (1 + 1 / 10 ^ 4), y_min = 0 - (1 + 1 / 10 ^ 4),
           z_min = 0 - (1 + 1 / 10 ^ 4), x_max = 2 + (1 + 1 / 10 ^ 4),
           y_max = 2 + (1 + 1 / 10 ^ 4), z_max = 2 + (1 + 1 / 10 ^ 4) \<rparr>"
proof -
  have "typical_length cube 3 1 = 1"
    by (simp add: typical_length_def std_pow_def)
  moreover have "(volume cube 3 / real_of_int 1) powr (1 / real 3) = 2"
    using cube_root_of_8 by (simp add: volume_def cube_def)
  moreover have "expanded_box (Rendezvous 3 cube) (line_mesh\<lparr>mesh_dim := 3\<rparr>) =
     Inr \<lparr> x_min = 0 - (1 + 1 / 10 ^ 4), y_min = 0 - (1 + 1 / 10 ^ 4),
           z_min = 0 - (1 + 1 / 10 ^ 4), x_max = 2 + (1 + 1 / 10 ^ 4),
           y_max = 2 + (1 + 1 / 10 ^ 4), z_max = 2 + (1 + 1 / 10 ^ 4) \<rparr>"
    by (simp add: expanded_box_def Rendezvous_def typical_length_def std_pow_def line_mesh_def
        expand_bounds_def getBounds_def cube_def BoundingBox_def upt_rec)
  ultimately show ?thesis by blast
qed

text \<open>
  C4.  On the chain of two elements with the box \<open>[0, 1]\<close>, enlarged to
  \<open>[-0.5001, 1.5001]\<close>, only vertex 0 (at \<open>x = 1\<close>) lies in the enlarged box.  Element 0 is
  active through it, and the pass over element 0 sets the flag of vertex 1 before element 1
  is looked at: element 1, whose vertices lie at 2 and 3, outside the enlarged box, is
  marked active.
\<close>

theorem getMeshInBox_halo_spreads:
  "\<exists>r' m'. getMeshInBox unit_engine chain_mesh = Inr (r', m') \<and>
     getBounds (d_global_box r') = [- (5001 / 10000), 0, 0, 15001 / 10000, 0, 0] \<and>
     active_elements m' 0 = [True, True] \<and>
     element_vertex_coords chain_mesh 0 1 = Inr [[2], [3]] \<and>
     \<not> pointInBox (d_global_box r') [2] \<and> \<not> pointInBox (d_global_box r') [3]"
proof -
  have "element_vertex_coords chain_mesh 0 1 = Inr [[2], [3]]"
    by (simp add: element_vertex_coords_def chain_mesh_def node_coords_of_def numElements_def
        numVertices_def read_at_def getLocalVertexId_def upt_rec)
  then show ?thesis
    by (simp add: getMeshInBox_def unit_engine_def chain_mesh_def Rendezvous_def expanded_box_def
      typical_length_def std_pow_def volume_def expand_bounds_def getBounds_def BoundingBox_def
      block_in_box_def vertices_in_box_of_def numVertices_def numElements_def blocked_point_def
      read_at_def pointInBox_def vertex_indices_of_def element_vertex_indices_def find_second_def
      setActiveElements_def setActiveVertices_def upt_rec)
qed


subsection \<open>Rendezvous::build\<close>

lemma expanded_box_Inr:
  assumes "expanded_box r m = Inr b"
  shows "0 < d_dimension r \<and> d_dimension r \<le> 3 \<and>
         b = BoundingBox (expand_bounds
               (typical_length (d_global_box r) (d_dimension r) (globalNumElements m))
               (1 / 10 ^ 4) (d_dimension r) (getBounds (d_global_box r)))"
  using assms by (auto simp: expanded_box_def Let_def split: if_splits)

lemma getMeshInBox_Inr:
  assumes "getMeshInBox r m = Inr (r1, m1)"
  shows "expanded_box r m = Inr (d_global_box r1) \<and> r1 = r\<lparr>d_global_box := d_global_box r1\<rparr> \<and>
         block_loop (d_global_box r1) (d_dimension r) [0..<length (blocks m)] m = Inr m1"
  using assms by (auto simp: getMeshInBox_def Let_def bind_err_eq_Inr)

lemma build_Inr:
  assumes "build c r (Some m) = Inr (r', m')"
  shows "\<exists>r1 m1. getMeshInBox r m = Inr (r1, m1) \<and> m' = Some m1 \<and>
           d_global_box r' = d_global_box r1 \<and> d_dimension r' = d_dimension r1"
  using assms
  by (auto simp: build_def Let_def bind_err_eq_Inr split: option.splits)

lemma expand_bounds_faces:
  assumes "0 < dimension" "dimension \<le> 3"
  shows "getBounds (BoundingBox (expand_bounds len tol dimension (getBounds b))) =
           map (\<lambda>k. if k < dimension then getBounds b ! k - (len + tol)
                     else if 3 \<le> k \<and> k < dimension + 3 then getBounds b ! k + (len + tol)
                     else getBounds b ! k) [0..<6]"
proof -
  from assms consider "dimension = 1" | "dimension = 2" | "dimension = 3" by linarith
  then show ?thesis
    by cases (simp_all add: expand_bounds_def getBounds_def BoundingBox_def upt_rec)
qed

lemma typical_length_nonneg:
  assumes "0 < dimension" "x_min b \<le> x_max b" "0 < n"
  shows "0 \<le> typical_length b dimension n"
proof (cases "dimension = 1")
  case True
  then show ?thesis using assms by (simp add: typical_length_def std_pow_def volume_def)
next
  case False
  with assms have "2 \<le> dimension" by simp
  then show ?thesis by (simp add: typical_length_dim23)
qed

text \<open>
  C10.  When \<open>build\<close> is given a mesh manager and returns, the box the engine holds is the
  box of the constructor with the faces of its first \<open>d_dimension\<close> axes moved outward by
  \<open>typical_length + 1e-4\<close>: \<open>getBox\<close> returns it, the loop over the blocks that decided
  the active vertices ran with it, and it differs from the box of the constructor (for a
  box with \<open>xmin \<le> xmax\<close> and a mesh of at least one element).
\<close>

theorem build_overwrites_box:
  assumes run: "build c r (Some m) = Inr (r', m')"
    and box: "x_min (d_global_box r) \<le> x_max (d_global_box r)"
    and elems: "0 < globalNumElements m"
    and len: "len = typical_length (d_global_box r) (d_dimension r) (globalNumElements m)"
  shows "getBox r' = BoundingBox (expand_bounds len (1 / 10 ^ 4) (d_dimension r)
                                    (getBounds (d_global_box r))) \<and>
         (\<forall>d < d_dimension r.
            getBounds (getBox r') ! d = getBounds (d_global_box r) ! d - (len + 1 / 10 ^ 4) \<and>
            getBounds (getBox r') ! (d + 3) =
              getBounds (d_global_box r) ! (d + 3) + (len + 1 / 10 ^ 4)) \<and>
         getBox r' \<noteq> d_global_box r \<and>
         (\<exists>m1. m' = Some m1 \<and>
            block_loop (getBox r') (d_dimension r) [0..<length (blocks m)] m = Inr m1)"
proof -
  from build_Inr[OF run] obtain r1 m1 where
    g: "getMeshInBox r m = Inr (r1, m1)" and m': "m' = Some m1"
    and b: "d_global_box r' = d_global_box r1" by blast
  from getMeshInBox_Inr[OF g] have
    e: "expanded_box r m = Inr (d_global_box r1)"
    and l: "block_loop (d_global_box r1) (d_dimension r) [0..<length (blocks m)] m = Inr m1"
    by simp_all
  from expanded_box_Inr[OF e] have d: "0 < d_dimension r" "d_dimension r \<le> 3"
    and eq: "d_global_box r1 = BoundingBox (expand_bounds len (1 / 10 ^ 4) (d_dimension r)
                                    (getBounds (d_global_box r)))"
    using len by simp_all
  have gb: "getBox r' = BoundingBox (expand_bounds len (1 / 10 ^ 4) (d_dimension r)
                                    (getBounds (d_global_box r)))"
    using b eq by (simp add: getBox_def)
  have bounds: "getBounds (getBox r') =
           map (\<lambda>k. if k < d_dimension r then getBounds (d_global_box r) ! k - (len + 1 / 10 ^ 4)
                     else if 3 \<le> k \<and> k < d_dimension r + 3
                          then getBounds (d_global_box r) ! k + (len + 1 / 10 ^ 4)
                     else getBounds (d_global_box r) ! k) [0..<6]"
    unfolding gb by (rule expand_bounds_faces[OF d])
  have faces: "getBounds (getBox r') ! k = getBounds (d_global_box r) ! k - (len + 1 / 10 ^ 4) \<and>
            getBounds (getBox r') ! (k + 3) =
              getBounds (d_global_box r) ! (k + 3) + (len + 1 / 10 ^ 4)"
    if "k < d_dimension r" for k
  proof -
    have "k < 6" "k + 3 < 6" using that d by simp_all
    then show ?thesis using that d unfolding bounds by (simp del: upt_Suc)
  qed
  have pos: "0 < len + 1 / 10 ^ 4"
    using typical_length_nonneg[OF d(1) box elems] len by simp
  have "getBounds (getBox r') ! 0 \<noteq> getBounds (d_global_box r) ! 0"
    using faces[of 0] d pos by simp
  then have ne: "getBox r' \<noteq> d_global_box r" by auto
  show ?thesis using gb faces ne m' l b by (simp add: getBox_def)
qed

theorem build_overwrites_box_witness:
  "\<exists>r' m'. build serial_collaborators (Rendezvous 1 segment_box) (Some segment_mesh) = Inr (r', m') \<and>
     getBounds (getBox r') ! 0 = 0 - (1 + 1 / 10 ^ 4) \<and>
     getBounds (getBox r') ! 3 = 1 + (1 + 1 / 10 ^ 4) \<and>
     getBox r' \<noteq> segment_box"
proof -
  let ?r = "Rendezvous 1 segment_box"
  have "error_of (build serial_collaborators ?r (Some segment_mesh)) = None"
    by code_simp
  then obtain r' m' where
    run: "build serial_collaborators ?r (Some segment_mesh) = Inr (r', m')"
    by (cases "build serial_collaborators ?r (Some segment_mesh)") (auto simp: error_of_def)
  have h1: "x_min (d_global_box ?r) \<le> x_max (d_global_box ?r)"
    by (simp add: Rendezvous_def segment_box_def)
  have h2: "0 < globalNumElements segment_mesh"
    by (simp add: segment_mesh_def)
  have h3: "(1::real) = typical_length (d_global_box ?r) (d_dimension ?r)
                          (globalNumElements segment_mesh)"
    by (simp add: typical_length_def std_pow_def volume_def Rendezvous_def segment_box_def
        segment_mesh_def)
  from build_overwrites_box[OF run h1 h2 h3]
  have faces: "\<forall>d < d_dimension ?r.
            getBounds (getBox r') ! d = getBounds (d_global_box ?r) ! d - (1 + 1 / 10 ^ 4) \<and>
            getBounds (getBox r') ! (d + 3) =
              getBounds (d_global_box ?r) ! (d + 3) + (1 + 1 / 10 ^ 4)"
    and ne: "getBox r' \<noteq> d_global_box ?r"
    by blast+
  from faces[rule_format, of 0]
  have "getBounds (getBox r') ! 0 = 0 - (1 + 1 / 10 ^ 4) \<and>
        getBounds (getBox r') ! 3 = 1 + (1 + 1 / 10 ^ 4)"
    by (simp add: Rendezvous_def segment_box_def getBounds_def)
  moreover have "getBox r' \<noteq> segment_box" using ne by (simp add: Rendezvous_def)
  ultimately show ?thesis using run by blast
qed


subsection \<open>SharedDomainMap::apply\<close>

lemma export_plan_mem:
  "(p, i, l) \<in> set (export_plan source_maps target_map) \<Longrightarrow>
     p < length source_maps \<and> i < length (source_maps ! p) \<and> l < length target_map \<and>
     target_map ! l = source_maps ! p ! i"
  by (auto simp: export_plan_def)

lemma slot_not_written:
  assumes "\<And>p i l'. (p, i, l') \<in> set plan \<Longrightarrow> l' < n \<and> l' \<noteq> l" "l < n"
  shows "j * n + l \<notin> set (plan_slots plan nv n)"
proof
  assume "j * n + l \<in> set (plan_slots plan nv n)"
  then obtain p i l' j' where e: "(p, i, l') \<in> set plan" and eq: "j * n + l = j' * n + l'"
    by (auto simp: plan_slots_def)
  from assms(1)[OF e] have l': "l' < n" "l' \<noteq> l" by simp_all
  have "(j * n + l) mod n = l" "(j' * n + l') mod n = l'" using assms(2) l' by simp_all
  with eq l' show False by simp
qed

lemma fold_preserves_length:
  assumes "\<And>x t. length (h x t) = length t"
  shows "length (fold h xs t) = length t"
  using assms by (induction xs arbitrary: t) simp_all

lemma insert_columns_length:
  "length (fold (\<lambda>j t'. t'[a j := b j]) js t) = length t"
  by (rule fold_preserves_length) simp

lemma doExport_length: "length (doExport plan num_vectors source_data target_data) = length target_data"
  unfolding doExport_def Let_def
  by (rule fold_preserves_length) (simp add: split_def insert_columns_length)

lemma insert_columns_untouched:
  "k \<notin> a ` set js \<Longrightarrow> fold (\<lambda>j t'. t'[a j := b j]) js t ! k = t ! k"
  by (induction js arbitrary: t) auto

lemma fold_entries_untouched:
  assumes "k \<notin> set (concat (map (\<lambda>(p, i, l). map (\<lambda>j. j * n + l) [0..<nv]) plan))"
  shows "fold (\<lambda>(p, i, l) t. fold (\<lambda>j t'. t'[j * n + l := src p i j]) [0..<nv] t) plan t0 ! k
           = t0 ! k"
  using assms
proof (induction plan arbitrary: t0)
  case Nil
  then show ?case by simp
next
  case (Cons e plan)
  obtain p i l where e: "e = (p, i, l)" by (cases e)
  from Cons.prems have k1: "k \<notin> (\<lambda>j. j * n + l) ` set [0..<nv]"
    and k2: "k \<notin> set (concat (map (\<lambda>(p, i, l). map (\<lambda>j. j * n + l) [0..<nv]) plan))"
    by (auto simp: e)
  have "fold (\<lambda>j t'. t'[j * n + l := src p i j]) [0..<nv] t0 ! k = t0 ! k"
    using k1 by (rule insert_columns_untouched)
  with Cons.IH[OF k2] show ?case by (simp add: e)
qed

lemma doExport_untouched:
  assumes "k \<notin> set (plan_slots plan num_vectors (length target_data div num_vectors))"
  shows "doExport plan num_vectors source_data target_data ! k = target_data ! k"
  using fold_entries_untouched[of k "length target_data div num_vectors" num_vectors plan
      "\<lambda>p i j. source_data ! p ! (j * (length (source_data ! p) div num_vectors) + i)" target_data]
    assms
  by (simp add: doExport_def plan_slots_def Let_def)

lemma target_field_of_Some:
  assumes "target_field_of s svs (Some f) = Inr r"
  shows "\<exists>plan. d_source_to_target_exporter s = Some plan \<and> 0 < d_map_dimension s \<and>
           length (field_data f) div d_map_dimension s = length (d_target_map s) \<and>
           field_dim f = d_map_dimension s \<and>
           r = Some (f\<lparr>field_data := doExport plan (d_map_dimension s) svs
                                         (replicate (length (field_data f)) 0)\<rparr>)"
  using assms
  by (auto simp: target_field_of_def Let_def bind_err_eq_Inr split: if_splits option.splits)

lemma target_field_of_None:
  assumes "target_field_of s svs None = Inr r"
  shows "r = None"
  using assms
  by (auto simp: target_field_of_def Let_def bind_err_eq_Inr split: if_splits option.splits)

lemma sdm_apply_Inr:
  assumes "sdm_apply maps evs targets = Inr (maps', targets')"
  shows "maps' = maps \<and> length targets' = length maps \<and>
         (\<exists>svs. mapM (\<lambda>q. source_vector_of (maps ! q) (evs ! q)) [0..<length maps] = Inr svs \<and>
            mapM (\<lambda>q. target_field_of (maps ! q) svs (targets ! q)) [0..<length maps] = Inr targets' \<and>
            (\<forall>q < length maps. target_field_of (maps ! q) svs (targets ! q) = Inr (targets' ! q)))"
proof -
  from assms obtain svs where
    s: "mapM (\<lambda>q. source_vector_of (maps ! q) (evs ! q)) [0..<length maps] = Inr svs"
    and t: "mapM (\<lambda>q. target_field_of (maps ! q) svs (targets ! q)) [0..<length maps] = Inr targets'"
    and m: "maps' = maps"
    by (auto simp: sdm_apply_def Let_def bind_err_eq_Inr)
  have len: "length targets' = length maps" using mapM_length[OF t] by simp
  have "target_field_of (maps ! q) svs (targets ! q) = Inr (targets' ! q)" if "q < length maps" for q
    using mapM_nth[OF t, of q] that by simp
  then show ?thesis using s t m len by blast
qed

text \<open>
  C8.  When \<open>apply\<close> returns, on every rank that has a target field the field keeps its
  length and every slot that the source-to-target plan of the rank does not write holds
  zero: the buffer is zeroed before the export, and the export writes the slots of the plan
  only.  In particular, when the plan is the export plan from source maps to the target map
  of the rank, as \<open>setup\<close> builds it, every slot of a target point whose ordinal is in no
  source map holds zero.
\<close>

theorem apply_zero_fills:
  assumes run: "sdm_apply maps evs targets = Inr (maps', targets')"
    and q: "q < length maps"
    and target: "targets ! q = Some f"
  shows "\<exists>plan f'. d_source_to_target_exporter (maps ! q) = Some plan \<and>
           targets' ! q = Some f' \<and>
           length (field_data f') = length (field_data f) \<and>
           (\<forall>k < length (field_data f').
              k \<notin> set (plan_slots plan (d_map_dimension (maps ! q))
                         (length (field_data f) div d_map_dimension (maps ! q))) \<longrightarrow>
              field_data f' ! k = 0) \<and>
           (\<forall>source_maps l j.
              plan = export_plan source_maps (d_target_map (maps ! q)) \<and>
              l < length (d_target_map (maps ! q)) \<and>
              (\<forall>p < length source_maps.
                 d_target_map (maps ! q) ! l \<notin> set (source_maps ! p)) \<and>
              j < d_map_dimension (maps ! q) \<longrightarrow>
              field_data f' ! (j * length (d_target_map (maps ! q)) + l) = 0)"
proof -
  from sdm_apply_Inr[OF run] q obtain svs where
    "target_field_of (maps ! q) svs (targets ! q) = Inr (targets' ! q)" by blast
  with target have "target_field_of (maps ! q) svs (Some f) = Inr (targets' ! q)" by simp
  from target_field_of_Some[OF this] obtain plan where
    plan: "d_source_to_target_exporter (maps ! q) = Some plan"
    and dpos: "0 < d_map_dimension (maps ! q)"
    and size: "length (field_data f) div d_map_dimension (maps ! q) = length (d_target_map (maps ! q))"
    and r: "targets' ! q = Some (f\<lparr>field_data := doExport plan (d_map_dimension (maps ! q)) svs
                                         (replicate (length (field_data f)) 0)\<rparr>)"
    by blast
  let ?f' = "f\<lparr>field_data := doExport plan (d_map_dimension (maps ! q)) svs
                                         (replicate (length (field_data f)) 0)\<rparr>"
  have len: "length (field_data ?f') = length (field_data f)"
    by (simp add: doExport_length)
  have zero: "field_data ?f' ! k = 0"
    if "k < length (field_data ?f')"
      "k \<notin> set (plan_slots plan (d_map_dimension (maps ! q))
                         (length (field_data f) div d_map_dimension (maps ! q)))" for k
  proof -
    have "doExport plan (d_map_dimension (maps ! q)) svs (replicate (length (field_data f)) 0) ! k
            = replicate (length (field_data f)) 0 ! k"
      using that(2) by (intro doExport_untouched) simp
    then show ?thesis using that(1) len by simp
  qed
  have unmapped: "field_data ?f' ! (j * length (d_target_map (maps ! q)) + l) = 0"
    if pl: "plan = export_plan source_maps (d_target_map (maps ! q))"
      and l: "l < length (d_target_map (maps ! q))"
      and out: "\<forall>p < length source_maps. d_target_map (maps ! q) ! l \<notin> set (source_maps ! p)"
      and j: "j < d_map_dimension (maps ! q)" for source_maps l j
  proof -
    let ?n = "length (d_target_map (maps ! q))"
    have entries: "l' < ?n \<and> l' \<noteq> l" if "(p, i, l') \<in> set plan" for p i l'
    proof -
      from that pl export_plan_mem[of p i l' source_maps "d_target_map (maps ! q)"]
      have m: "p < length source_maps" "i < length (source_maps ! p)" "l' < ?n"
        "d_target_map (maps ! q) ! l' = source_maps ! p ! i" by simp_all
      then have "d_target_map (maps ! q) ! l' \<in> set (source_maps ! p)" by simp
      with out m(1) have "l' \<noteq> l" by blast
      with m(3) show ?thesis by simp
    qed
    have notin: "j * ?n + l \<notin> set (plan_slots plan (d_map_dimension (maps ! q)) ?n)"
      using entries l by (intro slot_not_written) blast+
    have "j * ?n + l < (j + 1) * ?n" using l by simp
    also have "\<dots> \<le> d_map_dimension (maps ! q) * ?n" using j by (intro mult_le_mono1) simp
    also have "\<dots> \<le> length (field_data f)"
      using size[symmetric] by simp
    finally have "j * ?n + l < length (field_data ?f')" using len by simp
    from zero[OF this] notin size show ?thesis by simp
  qed
  show ?thesis
    using plan r len zero unmapped
    by (intro exI[of _ plan] exI[of _ ?f'] conjI allI impI) blast+
qed

theorem apply_zero_fills_witness:
  "\<exists>maps' targets' f'.
     sdm_apply [serial_map] [Some ten_times] [Some \<lparr>field_dim = 1, field_data = [5, 5]\<rparr>]
       = Inr (maps', targets') \<and>
     targets' ! 0 = Some f' \<and> length (field_data f') = 2 \<and> field_data f' ! 1 = 0"
proof -
  let ?f = "\<lparr>field_dim = 1, field_data = [5, 5::real]\<rparr>"
  have "error_of (sdm_apply [serial_map] [Some ten_times] [Some ?f]) = None"
    by code_simp
  then obtain maps' targets' where
    run: "sdm_apply [serial_map] [Some ten_times] [Some ?f] = Inr (maps', targets')"
    by (cases "sdm_apply [serial_map] [Some ten_times] [Some ?f]") (auto simp: error_of_def)
  from apply_zero_fills[OF run, of 0 ?f] obtain plan f' where
    plan: "d_source_to_target_exporter ([serial_map] ! 0) = Some plan"
    and f': "targets' ! 0 = Some f'"
    and len: "length (field_data f') = length (field_data ?f)"
    and zero: "\<forall>k < length (field_data f').
              k \<notin> set (plan_slots plan (d_map_dimension ([serial_map] ! 0))
                         (length (field_data ?f) div d_map_dimension ([serial_map] ! 0))) \<longrightarrow>
              field_data f' ! k = 0"
    by auto
  from plan have p: "plan = [(0, 0, 0)]" by (simp add: serial_map_def)
  have "field_data f' ! 1 = 0"
    using zero[rule_format, of 1] len by (simp add: p plan_slots_def serial_map_def)
  with run f' len show ?thesis by auto
qed

lemma mapM_eqI:
  assumes "length ys = length xs" "\<And>i. i < length xs \<Longrightarrow> f (xs ! i) = Inr (ys ! i)"
  shows "mapM f xs = Inr ys"
  using assms
proof (induction xs arbitrary: ys)
  case Nil
  then show ?case by simp
next
  case (Cons x xs)
  then obtain y ys' where ys: "ys = y # ys'" by (cases ys) auto
  have "f x = Inr y" using Cons.prems(2)[of 0] ys by simp
  moreover have "mapM f xs = Inr ys'"
  proof (rule Cons.IH)
    show "length ys' = length xs" using Cons.prems(1) ys by simp
  next
    fix i assume "i < length xs"
    then show "f (xs ! i) = Inr (ys' ! i)" using Cons.prems(2)[of "Suc i"] ys by simp
  qed
  ultimately show ?case by (simp add: ys)
qed

lemma target_field_of_again:
  assumes "target_field_of s svs t = Inr t'"
  shows "target_field_of s svs t' = Inr t'"
proof (cases t)
  case None
  with assms have "t' = None" using target_field_of_None by blast
  with assms None show ?thesis by simp
next
  case (Some f)
  with assms have a: "target_field_of s svs (Some f) = Inr t'" by simp
  from target_field_of_Some[OF a] obtain plan where
    plan: "d_source_to_target_exporter s = Some plan" and d: "0 < d_map_dimension s"
    and sz: "length (field_data f) div d_map_dimension s = length (d_target_map s)"
    and fd: "field_dim f = d_map_dimension s"
    and t': "t' = Some (f\<lparr>field_data := doExport plan (d_map_dimension s) svs
                                         (replicate (length (field_data f)) 0)\<rparr>)"
    by blast
  have ok: "createMultiVectorFromView (d_target_map s) (field_data f)
               (length (field_data f) div d_map_dimension s) (d_map_dimension s)
             = Inr (field_data f)"
    using a plan d sz fd
    by (auto simp: target_field_of_def Let_def bind_err_eq_Inr createMultiVectorFromView_def
        split: if_splits)
  then have ok': "createMultiVectorFromView (d_target_map s)
               (doExport plan (d_map_dimension s) svs (replicate (length (field_data f)) 0))
               (length (field_data f) div d_map_dimension s) (d_map_dimension s)
             = Inr (doExport plan (d_map_dimension s) svs (replicate (length (field_data f)) 0))"
    by (auto simp: createMultiVectorFromView_def doExport_length split: if_splits)
  show ?thesis
    unfolding t'
    using plan d sz fd ok'
    by (simp add: target_field_of_def Let_def doExport_length)
qed

text \<open>
  C9.  \<open>apply\<close> leaves the maps as they are, and a second \<open>apply\<close> with the same
  evaluators on the target fields the first one returned returns the same maps and the
  same target fields.
\<close>

theorem apply_twice_same:
  assumes run: "sdm_apply maps evs targets = Inr (maps', targets')"
  shows "maps' = maps \<and> sdm_apply maps' evs targets' = Inr (maps', targets')"
proof -
  from sdm_apply_Inr[OF run] obtain svs where
    m: "maps' = maps" and len: "length targets' = length maps"
    and s: "mapM (\<lambda>q. source_vector_of (maps ! q) (evs ! q)) [0..<length maps] = Inr svs"
    and each: "\<forall>q < length maps. target_field_of (maps ! q) svs (targets ! q) = Inr (targets' ! q)"
    by blast
  have "mapM (\<lambda>q. target_field_of (maps ! q) svs (targets' ! q)) [0..<length maps] = Inr targets'"
  proof (rule mapM_eqI)
    show "length targets' = length [0..<length maps]" using len by simp
  next
    fix i assume "i < length [0..<length maps]"
    then have i: "i < length maps" by simp
    from each i have "target_field_of (maps ! i) svs (targets ! i) = Inr (targets' ! i)" by blast
    from target_field_of_again[OF this]
    show "target_field_of (maps ! ([0..<length maps] ! i)) svs (targets' ! ([0..<length maps] ! i))
            = Inr (targets' ! i)"
      using i by simp
  qed
  with s m show ?thesis by (simp add: sdm_apply_def Let_def)
qed

theorem apply_twice_same_witness:
  "\<exists>targets'.
     sdm_apply [serial_map] [Some ten_times] [Some \<lparr>field_dim = 1, field_data = [5, 5]\<rparr>]
       = Inr ([serial_map], targets') \<and>
     sdm_apply [serial_map] [Some ten_times] targets' = Inr ([serial_map], targets')"
proof -
  let ?f = "\<lparr>field_dim = 1, field_data = [5, 5::real]\<rparr>"
  have "error_of (sdm_apply [serial_map] [Some ten_times] [Some ?f]) = None"
    by code_simp
  then obtain maps' targets' where
    run: "sdm_apply [serial_map] [Some ten_times] [Some ?f] = Inr (maps', targets')"
    by (cases "sdm_apply [serial_map] [Some ten_times] [Some ?f]") (auto simp: error_of_def)
  from apply_twice_same[OF run] show ?thesis using run by auto
qed


subsection \<open>SharedDomainMap::setup\<close>

lemma bind_err_InrE:
  assumes "bind_err m f = Inr y"
  obtains x where "m = Inr x" "f x = Inr y"
  using assms by (cases m) simp_all

lemma mapM_mem:
  "mapM f xs = Inr ys \<Longrightarrow> x \<in> set xs \<Longrightarrow> \<exists>y. f x = Inr y"
  by (induction xs arbitrary: ys) (auto simp: bind_err_eq_Inr)

lemma check_dimensions_Inr:
  "check_dimensions dimension inp = Inr u \<Longrightarrow> target_coord_manager inp = Some f \<Longrightarrow>
     field_dim f = dimension"
  by (auto simp: check_dimensions_def split: if_splits)

lemma collect_sizes_dims:
  "collect_sizes ms = Inr ks \<Longrightarrow> Some f \<in> set ms \<Longrightarrow> 0 < field_dim f"
proof (induction ms arbitrary: ks)
  case Nil
  then show ?case by simp
next
  case (Cons m ms)
  then show ?case
    by (auto simp: local_size_of_def split: sum.splits if_splits)
qed

lemma computePointOrdinals_dims:
  assumes "computePointOrdinals T store ms = Inr ords" "Some f \<in> set ms"
  shows "0 < field_dim f"
  using assms collect_sizes_dims
  by (auto simp: computePointOrdinals_def split: sum.splits)

lemma broadcast_coord_dim_Inr:
  assumes "broadcast_coord_dim inputs = Inr coord_dim"
  shows "\<exists>inp f. inp \<in> set inputs \<and> target_coord_manager inp = Some f \<and> field_dim f = coord_dim"
proof -
  from assms obtain f fs where l: "List.map_filter target_coord_manager inputs = f # fs"
    and c: "field_dim f = coord_dim"
    by (auto simp: broadcast_coord_dim_def split: list.splits)
  have "f \<in> set (List.map_filter target_coord_manager inputs)" using l by simp
  then obtain inp where "inp \<in> set inputs" "target_coord_manager inp = Some f"
    by (auto simp: List.map_filter_def)
  with c show ?thesis by blast
qed

lemma doPostsAndWaits_length:
  "doPostsAndWaits procs exports = Inr imports \<Longrightarrow> length imports = length procs"
  by (auto simp: doPostsAndWaits_def split: if_splits)

lemma filter_zip_fst_length:
  "length b = length b' \<Longrightarrow>
     length (filter (\<lambda>item. fst item = k) (zip a b)) =
     length (filter (\<lambda>item. fst item = k) (zip a b'))"
proof (induction a arbitrary: b b')
  case Nil
  then show ?case by simp
next
  case (Cons x a)
  show ?case
  proof (cases b)
    case Nil
    with Cons.prems show ?thesis by simp
  next
    case (Cons y ys)
    with Cons.prems obtain y' ys' where b': "b' = y' # ys'" and l: "length ys = length ys'"
      by (cases b') auto
    from Cons.IH[OF l] show ?thesis by (simp add: Cons b')
  qed
qed

lemma imports_of_length:
  assumes "\<And>p. p < length procs \<Longrightarrow> length (e1 ! p) = length (e2 ! p)"
  shows "length (imports_of procs e1 q) = length (imports_of procs e2 q)"
proof -
  have eq: "map (\<lambda>p. length (filter (\<lambda>item. fst item = int q) (zip (procs ! p) (e1 ! p))))
              [0..<length procs] =
            map (\<lambda>p. length (filter (\<lambda>item. fst item = int q) (zip (procs ! p) (e2 ! p))))
              [0..<length procs]"
  proof (rule map_cong[OF refl])
    fix p assume "p \<in> set [0..<length procs]"
    then have "length (e1 ! p) = length (e2 ! p)" using assms by simp
    then show "length (filter (\<lambda>item. fst item = int q) (zip (procs ! p) (e1 ! p))) =
               length (filter (\<lambda>item. fst item = int q) (zip (procs ! p) (e2 ! p)))"
      by (rule filter_zip_fst_length)
  qed
  have "length (imports_of procs e1 q) =
          sum_list (map (\<lambda>p. length (filter (\<lambda>item. fst item = int q)
                                          (zip (procs ! p) (e1 ! p)))) [0..<length procs])"
    by (simp add: imports_of_def length_concat comp_def)
  also have "\<dots> = sum_list (map (\<lambda>p. length (filter (\<lambda>item. fst item = int q)
                                          (zip (procs ! p) (e2 ! p)))) [0..<length procs])"
    by (simp only: eq)
  also have "\<dots> = length (imports_of procs e2 q)"
    by (simp add: imports_of_def length_concat comp_def)
  finally show ?thesis .
qed

lemma remove_missed_lengths:
  assumes "remove_missed T idx points elements src_procs = Inr k"
  shows "length (kept_points k) = length (kept_elements k) \<and>
         length (kept_elements k) = length (kept_src_procs k)"
  using assms by (auto simp: remove_missed_def Let_def resize_def split: if_splits)

lemma ship_to_source_plan:
  assumes ship: "ship_to_source dimension store coord_dim ords rp rc mp keep = Inr maps"
    and lens: "\<And>q. q < length keep \<Longrightarrow> length (kept_points (keep ! q)) = length (kept_elements (keep ! q))"
  shows "\<forall>q < length keep.
            length (d_source_map (maps ! q)) = length (d_source_elements (maps ! q)) \<and>
            d_source_to_target_exporter (maps ! q) =
              Some (export_plan (map d_source_map maps) (d_target_map (maps ! q)))"
proof -
  from ship obtain se sp where
    se: "doPostsAndWaits (map kept_src_procs keep) (map kept_elements keep) = Inr se"
    and sp: "doPostsAndWaits (map kept_src_procs keep) (map kept_points keep) = Inr sp"
    and maps: "maps = map (\<lambda>q.
                 let num_source_elements = length (se ! q)
                 in \<lparr> d_map_dimension = dimension,
                      d_store_missed_points = store,
                      d_target_map = target_ordinals (ords ! q),
                      d_source_map = sp ! q,
                      d_source_elements = se ! q,
                      d_target_coords =
                        doExport (export_plan rp (sp ! q)) coord_dim
                          rc (replicate (num_source_elements * coord_dim) 0),
                      d_missed_points = mp ! q,
                      d_target_g2l = target_g2l (ords ! q),
                      d_source_to_target_exporter =
                        Some (export_plan sp (target_ordinals (ords ! q))) \<rparr>)
               [0..<length keep]"
    by (auto simp: ship_to_source_def bind_err_eq_Inr)
  have se_eq: "se = map (imports_of (map kept_src_procs keep) (map kept_elements keep)) [0..<length keep]"
    using se by (auto simp: doPostsAndWaits_def split: if_splits)
  have sp_eq: "sp = map (imports_of (map kept_src_procs keep) (map kept_points keep)) [0..<length keep]"
    using sp by (auto simp: doPostsAndWaits_def split: if_splits)
  have sm: "map d_source_map maps = sp"
    unfolding maps by (rule nth_equalityI) (simp_all add: sp_eq Let_def)
  have io: "length (imports_of (map kept_src_procs keep) (map kept_points keep) q) =
            length (imports_of (map kept_src_procs keep) (map kept_elements keep) q)" for q
    by (rule imports_of_length) (simp add: lens)
  have "length (sp ! q) = length (se ! q)" if "q < length keep" for q
    using that unfolding se_eq sp_eq by (simp add: io)
  then show ?thesis
    unfolding sm unfolding maps by (simp add: Let_def)
qed

lemma ship_to_source_Inr:
  assumes "ship_to_source dimension store coord_dim ords rp rc mp keep = Inr maps"
  shows "length maps = length keep \<and>
         (\<forall>q < length keep.
            d_map_dimension (maps ! q) = dimension \<and>
            length (d_target_coords (maps ! q)) =
              length (d_source_elements (maps ! q)) * coord_dim)"
  using assms
  by (auto simp: ship_to_source_def bind_err_eq_Inr Let_def doExport_length)

text \<open>
  C7.  When \<open>setup\<close> returns, every rank holds a map of the dimension of the setup whose
  \<open>d_target_coords\<close> has \<open>dimension\<close> doubles for each entry of \<open>d_source_elements\<close>:
  the number of source elements is the length of \<open>d_target_coords\<close> divided by the
  dimension.  The rank holds one target ordinal in \<open>d_source_map\<close> for each source element,
  and its exporter is the export plan from the source maps of all ranks to its target map.
\<close>

theorem setup_plan_sizes:
  assumes run: "sdm_setup T dimension store tolerance src_box tgt_box inputs = Inr maps"
  shows "length maps = length inputs \<and>
         (\<forall>q < length maps.
            d_map_dimension (maps ! q) = dimension \<and>
            length (d_target_coords (maps ! q)) =
              length (d_source_elements (maps ! q)) * dimension \<and>
            length (d_source_elements (maps ! q)) =
              length (d_target_coords (maps ! q)) div dimension \<and>
            length (d_source_map (maps ! q)) = length (d_source_elements (maps ! q)) \<and>
            d_source_to_target_exporter (maps ! q) =
              Some (export_plan (map d_source_map maps) (d_target_map (maps ! q))))"
proof -
  have "\<exists>u ords coord_dim rp rc mp keep.
      mapM (check_dimensions dimension) inputs = Inr u \<and>
      computePointOrdinals T store (map target_coord_manager inputs) = Inr ords \<and>
      broadcast_coord_dim inputs = Inr coord_dim \<and>
      length keep = length inputs \<and>
      (\<forall>q < length keep.
         length (kept_points (keep ! q)) = length (kept_elements (keep ! q))) \<and>
      ship_to_source dimension store coord_dim ords rp rc mp keep = Inr maps"
    using run unfolding sdm_setup_def Let_def
    apply (elim bind_err_InrE)
    subgoal premises p for u ords box built coord_dim sent rp searched found mp keep
    proof -
      have n: "length keep = length inputs" using mapM_length[OF p(11)] by simp
      have "length (kept_points (keep ! q)) = length (kept_elements (keep ! q))"
        if "q < length keep" for q
        using mapM_nth[OF p(11), of q] that n remove_missed_lengths by fastforce
      with n p(1,2,5,12) show ?thesis by blast
    qed
    done
  then obtain u ords coord_dim rp rc mp keep where
    chk: "mapM (check_dimensions dimension) inputs = Inr u"
    and ords: "computePointOrdinals T store (map target_coord_manager inputs) = Inr ords"
    and cd: "broadcast_coord_dim inputs = Inr coord_dim"
    and keep: "length keep = length inputs"
    and lens: "\<forall>q < length keep.
         length (kept_points (keep ! q)) = length (kept_elements (keep ! q))"
    and ship: "ship_to_source dimension store coord_dim ords rp rc mp keep = Inr maps"
    by blast
  from broadcast_coord_dim_Inr[OF cd] obtain inp f where
    inp: "inp \<in> set inputs" and f: "target_coord_manager inp = Some f"
    and fd: "field_dim f = coord_dim" by blast
  from mapM_mem[OF chk inp] check_dimensions_Inr f have "field_dim f = dimension" by blast
  moreover have "Some f \<in> set (map target_coord_manager inputs)"
    using inp f by (metis image_eqI set_map)
  from computePointOrdinals_dims[OF ords this] have "0 < field_dim f" .
  ultimately have eq: "coord_dim = dimension" and pos: "0 < dimension" using fd by simp_all
  from ship_to_source_plan[OF ship] lens
  have plan: "\<forall>q < length keep.
            length (d_source_map (maps ! q)) = length (d_source_elements (maps ! q)) \<and>
            d_source_to_target_exporter (maps ! q) =
              Some (export_plan (map d_source_map maps) (d_target_map (maps ! q)))"
    by blast
  from ship_to_source_Inr[OF ship] have
    n: "length maps = length keep"
    and sizes: "\<forall>q < length keep.
            d_map_dimension (maps ! q) = dimension \<and>
            length (d_target_coords (maps ! q)) =
              length (d_source_elements (maps ! q)) * coord_dim"
    by blast+
  have "d_map_dimension (maps ! q) = dimension \<and>
            length (d_target_coords (maps ! q)) =
              length (d_source_elements (maps ! q)) * dimension \<and>
            length (d_source_elements (maps ! q)) =
              length (d_target_coords (maps ! q)) div dimension \<and>
            length (d_source_map (maps ! q)) = length (d_source_elements (maps ! q)) \<and>
            d_source_to_target_exporter (maps ! q) =
              Some (export_plan (map d_source_map maps) (d_target_map (maps ! q)))"
    if "q < length maps" for q
  proof -
    from that n have q: "q < length keep" by simp
    from sizes q eq have
      d: "d_map_dimension (maps ! q) = dimension"
      and l: "length (d_target_coords (maps ! q)) =
              length (d_source_elements (maps ! q)) * dimension" by simp_all
    from l pos have "length (d_source_elements (maps ! q)) =
              length (d_target_coords (maps ! q)) div dimension" by simp
    with d l plan q show ?thesis by blast
  qed
  moreover have "length maps = length inputs" using n keep by simp
  ultimately show ?thesis by blast
qed

theorem setup_plan_sizes_witness:
  "\<exists>maps. sdm_setup UInt64 1 True 0 segment_box points_box [serial_input] = Inr maps \<and>
     length maps = 1 \<and>
     length (d_source_elements (maps ! 0)) = length (d_target_coords (maps ! 0)) div 1"
proof -
  have "error_of (sdm_setup UInt64 1 True 0 segment_box points_box [serial_input]) = None"
    by code_simp
  then obtain maps where
    run: "sdm_setup UInt64 1 True 0 segment_box points_box [serial_input] = Inr maps"
    by (cases "sdm_setup UInt64 1 True 0 segment_box points_box [serial_input]")
       (auto simp: error_of_def)
  from setup_plan_sizes[OF run]
  have len: "length maps = length [serial_input]"
    and all: "\<forall>q < length maps.
            d_map_dimension (maps ! q) = 1 \<and>
            length (d_target_coords (maps ! q)) = length (d_source_elements (maps ! q)) * 1 \<and>
            length (d_source_elements (maps ! q)) = length (d_target_coords (maps ! q)) div 1 \<and>
            length (d_source_map (maps ! q)) = length (d_source_elements (maps ! q)) \<and>
            d_source_to_target_exporter (maps ! q) =
              Some (export_plan (map d_source_map maps) (d_target_map (maps ! q)))"
    by blast+
  from len have l1: "length maps = 1" and pos: "0 < length maps" by simp_all
  from all pos
  have "length (d_source_elements (maps ! 0)) = length (d_target_coords (maps ! 0)) div 1"
    by blast
  with run l1 show ?thesis by blast
qed

text \<open>
  C1.  With a signed ordinal type the element of a point that was not found,
  \<open>numeric_limits<GlobalOrdinal>::max()\<close>, is not equal to \<open>-1\<close>, which is what \<open>setup\<close>
  looks for.  In the transfer on one rank the search reports the sentinel for the point
  \<open>x = 3/2\<close>; \<open>setup\<close> finds no point to record as missed and none to remove from the
  points and the elements, removes the \<open>-1\<close> from the source ranks only, and stops at the
  check that the two sizes agree.  With \<open>unsigned long\<close> ordinals, for which the
  conversion of \<open>-1\<close> is the maximum, the same transfer records the point as missed and
  ships element 7 alone.
\<close>

theorem setup_signed_sentinel_not_missed:
  "elementsContainingPoints Int32 serial_engine [1 / 2, 3 / 2] 0
     = Inr ([7, ordinal_max Int32], [0, - 1]) \<and>
   find_missed Int32 True [7, ordinal_max Int32] [0, 1]
     = Inr \<lparr> not_in_mesh = [], missed_in_mesh_idx = [], missed_in_mesh_ordinal = [] \<rparr> \<and>
   remove_missed Int32 [] [0, 1] [7, ordinal_max Int32] [0, - 1] = Inl InvariantFailure \<and>
   sdm_setup Int32 1 True 0 segment_box points_box [serial_input] = Inl InvariantFailure \<and>
   map_sum id (map (\<lambda>m. (d_source_elements m, d_source_map m, d_missed_points m)))
     (sdm_setup UInt64 1 True 0 segment_box points_box [serial_input]) = Inr [([7], [0], [1])]"
proof -
  have "elementsContainingPoints Int32 serial_engine [1 / 2, 3 / 2] 0
          = Inr ([7, ordinal_max Int32], [0, - 1])"
    by code_simp
  moreover have "find_missed Int32 True [7, ordinal_max Int32] [0, 1]
     = Inr \<lparr> not_in_mesh = [], missed_in_mesh_idx = [], missed_in_mesh_ordinal = [] \<rparr>"
    by code_simp
  moreover have "remove_missed Int32 [] [0, 1] [7, ordinal_max Int32] [0, - 1]
                   = Inl InvariantFailure"
    by code_simp
  moreover have "sdm_setup Int32 1 True 0 segment_box points_box [serial_input]
                   = Inl InvariantFailure"
  proof -
    have "error_of (sdm_setup Int32 1 True 0 segment_box points_box [serial_input])
            = Some InvariantFailure"
      by code_simp
    then show ?thesis
      by (cases "sdm_setup Int32 1 True 0 segment_box points_box [serial_input]")
         (auto simp: error_of_def)
  qed
  moreover have "map_sum id (map (\<lambda>m. (d_source_elements m, d_source_map m, d_missed_points m)))
     (sdm_setup UInt64 1 True 0 segment_box points_box [serial_input]) = Inr [([7], [0], [1])]"
    by code_simp
  ultimately show ?thesis by blast
qed


end
